theory Spec2Isabelle
  imports Complex_Main "HOL-Library.AList" "HOL-Library.Sublist" "HOL-Library.Multiset"
    "HOL-Library.Product_Lexorder"
begin

section \<open>The file system seen by the project commands\<close>

text \<open>
  The commands of \<^verbatim>\<open>datumaro/cli/contexts/project/__init__.py\<close> touch the disk only through
  \<^verbatim>\<open>osp.isdir\<close>, \<^verbatim>\<open>osp.isfile\<close>, \<^verbatim>\<open>os.listdir\<close>, \<^verbatim>\<open>shutil.rmtree\<close> and \<^verbatim>\<open>os.makedirs\<close>.
  The disk is a tree: a node is a regular file or a directory with named entries. A path is
  the list of the components of an absolute, normalised path, the root being \<open>[]\<close>.
  An entry list is read with \<open>map_of\<close>, so the first binding of a name is the entry.
\<close>

type_synonym path = "string list"

datatype node = File | Dir "(string \<times> node) list"

datatype cli_message = DirectoryExists | ProjectFileExists | ConverterNotFound string

datatype error =
    TypeError
  | KeyError
  | FileExistsError
  | FileNotFoundError
  | NotADirectoryError
  | OSError
  | UnboundLocalError
  | CliException cli_message
  | InvalidThreshold
  | IncompatibleVocabulary
  | DestinationRequired
  | SystemExit int
  | Failure string

fun lookup :: "node \<Rightarrow> path \<Rightarrow> node option" where
  "lookup n [] = Some n"
| "lookup File (c # cs) = None"
| "lookup (Dir es) (c # cs) = (case map_of es c of None \<Rightarrow> None | Some m \<Rightarrow> lookup m cs)"

text \<open>What \<^verbatim>\<open>os.stat\<close> tells about a path: nothing there, a regular file, or a directory.\<close>

datatype file_kind = RegularFile | Directory

fun node_kind :: "node \<Rightarrow> file_kind" where
  "node_kind File = RegularFile"
| "node_kind (Dir es) = Directory"

definition stat :: "node \<Rightarrow> path \<Rightarrow> file_kind option" where
  "stat t p = map_option node_kind (lookup t p)"

definition exists :: "node \<Rightarrow> path \<Rightarrow> bool" where
  "exists t p = (stat t p \<noteq> None)"

definition isdir :: "node \<Rightarrow> path \<Rightarrow> bool" where
  "isdir t p = (stat t p = Some Directory)"

definition isfile :: "node \<Rightarrow> path \<Rightarrow> bool" where
  "isfile t p = (stat t p = Some RegularFile)"

definition listdir :: "node \<Rightarrow> path \<Rightarrow> error + string list" where
  "listdir t p =
     (case lookup t p of
        None \<Rightarrow> Inl FileNotFoundError
      | Some File \<Rightarrow> Inl NotADirectoryError
      | Some (Dir es) \<Rightarrow> Inr (remdups (map fst es)))"

text \<open>Removing the entry at a path, with everything below it.\<close>

fun remove_entry :: "node \<Rightarrow> path \<Rightarrow> node" where
  "remove_entry t [] = t"
| "remove_entry File (c # cs) = File"
| "remove_entry (Dir es) [c] = Dir (AList.delete c es)"
| "remove_entry (Dir es) (c # cs) =
     (case map_of es c of
        None \<Rightarrow> Dir es
      | Some m \<Rightarrow> Dir (AList.update c (remove_entry m cs) es))"

text \<open>
  \<^verbatim>\<open>shutil.rmtree(p)\<close> raises when \<open>p\<close> is missing or is no directory. On the root it deletes
  every entry and then fails at the final \<^verbatim>\<open>rmdir\<close>, the root itself not being removable.
\<close>

definition rmtree :: "node \<Rightarrow> path \<Rightarrow> (error + unit) \<times> node" where
  "rmtree t p =
     (case lookup t p of
        None \<Rightarrow> (Inl FileNotFoundError, t)
      | Some File \<Rightarrow> (Inl NotADirectoryError, t)
      | Some (Dir es) \<Rightarrow> if p = [] then (Inl OSError, Dir []) else (Inr (), remove_entry t p))"

text \<open>
  \<^verbatim>\<open>os.makedirs(p, exist_ok)\<close> creates \<open>p\<close> and every missing ancestor. It raises
  \<^verbatim>\<open>FileExistsError\<close> when \<open>p\<close> exists, unless \<open>p\<close> is a directory and \<open>exist_ok\<close> is set, and
  \<^verbatim>\<open>NotADirectoryError\<close> when an ancestor is a regular file. Nothing is created on failure:
  the ancestors above the deepest existing one exist already.
\<close>

fun fresh_dirs :: "path \<Rightarrow> node" where
  "fresh_dirs [] = Dir []"
| "fresh_dirs (c # cs) = Dir [(c, fresh_dirs cs)]"

fun makedirs :: "node \<Rightarrow> path \<Rightarrow> bool \<Rightarrow> error + node" where
  "makedirs File [] exist_ok = Inl FileExistsError"
| "makedirs (Dir es) [] exist_ok = (if exist_ok then Inr (Dir es) else Inl FileExistsError)"
| "makedirs File (c # cs) exist_ok = Inl NotADirectoryError"
| "makedirs (Dir es) (c # cs) exist_ok =
     (case map_of es c of
        None \<Rightarrow> Inr (Dir (AList.update c (fresh_dirs cs) es))
      | Some m \<Rightarrow>
          (case makedirs m cs exist_ok of
             Inl e \<Rightarrow> Inl e
           | Inr m' \<Rightarrow> Inr (Dir (AList.update c m' es))))"

section \<open>The world of a command, and its collaborators\<close>

text \<open>
  A command runs against the disk and the standard output stream; it returns a value or
  raises, and leaves a world behind. Logging (\<^verbatim>\<open>log.info\<close>) is left out.
\<close>

record world =
  fs :: node
  stdout :: "string list"

type_synonym 'a outcome = "(error + 'a) \<times> world"

definition return :: "'a \<Rightarrow> world \<Rightarrow> 'a outcome" where
  "return x w = (Inr x, w)"

definition raise :: "error \<Rightarrow> world \<Rightarrow> 'a outcome" where
  "raise e w = (Inl e, w)"

definition lift :: "error + 'a \<Rightarrow> world \<Rightarrow> 'a outcome" where
  "lift r w = (r, w)"

definition seq :: "'a outcome \<Rightarrow> ('a \<Rightarrow> world \<Rightarrow> 'b outcome) \<Rightarrow> 'b outcome" where
  "seq r k = (case r of (Inl e, w) \<Rightarrow> (Inl e, w) | (Inr x, w) \<Rightarrow> k x w)"

definition shutil_rmtree :: "path \<Rightarrow> world \<Rightarrow> unit outcome" where
  "shutil_rmtree p w = (case rmtree (fs w) p of (r, t) \<Rightarrow> (r, w\<lparr>fs := t\<rparr>))"

definition os_makedirs :: "path \<Rightarrow> bool \<Rightarrow> world \<Rightarrow> unit outcome" where
  "os_makedirs p exist_ok w =
     (case makedirs (fs w) p exist_ok of
        Inl e \<Rightarrow> (Inl e, w)
      | Inr t \<Rightarrow> (Inr (), w\<lparr>fs := t\<rparr>))"

definition print :: "string \<Rightarrow> world \<Rightarrow> unit outcome" where
  "print s w = (Inr (), w\<lparr>stdout := stdout w @ [s]\<rparr>)"

text \<open>
  A Python float, as \<^verbatim>\<open>argparse\<close> produces it with \<^verbatim>\<open>type=float\<close>: a finite value, an
  infinity or a NaN. The commands only pass thresholds on; no arithmetic is done on them.
\<close>

datatype pyfloat = Finite rat | PosInf | NegInf | NaN

text \<open>
  The modules the commands import are not part of the file: \<^verbatim>\<open>Project\<close>, \<^verbatim>\<open>Comparator\<close>,
  \<^verbatim>\<open>DatasetItemEncoder\<close>, \<^verbatim>\<open>DiffVisualizer\<close>, and \<^verbatim>\<open>make_project_path\<close>, \<^verbatim>\<open>load_project\<close>,
  \<^verbatim>\<open>generate_next_dir_name\<close> of \<^verbatim>\<open>util.project\<close>. They are parameters of every command,
  collected in one record: \<open>'p\<close> is a project, \<open>'d\<close> a dataset, \<open>'c\<close> a converter, \<open>'m\<close> a
  comparator, \<open>'v\<close> a visualizer. Loading a project, importing one and building its dataset
  read the disk; the operations that save, export, extract or transform, and the drawing of
  a diff, change the world. \<^verbatim>\<open>osp.abspath\<close> depends on the working directory and maps an
  argument string to a path; the \<^verbatim>\<open>os\<close> functions resolve a relative argument the same way.
\<close>

record ('p, 'd, 'c, 'm, 'v) env =
  abspath :: "string \<Rightarrow> path"
  make_project_path :: "path \<Rightarrow> path"
  load_project :: "node \<Rightarrow> string \<Rightarrow> error + 'p"
  generate_next_dir_name :: "node \<Rightarrow> string \<Rightarrow> string"
  Project_generate :: "path \<Rightarrow> string \<Rightarrow> world \<Rightarrow> unit outcome"
  Project_import_from :: "node \<Rightarrow> path \<Rightarrow> string \<Rightarrow> error + 'p"
  set_config :: "'p \<Rightarrow> string \<Rightarrow> path \<Rightarrow> 'p"
  make_dataset :: "node \<Rightarrow> 'p \<Rightarrow> error + 'd"
  dataset_save :: "'d \<Rightarrow> world \<Rightarrow> unit outcome"
  project_save :: "'p \<Rightarrow> world \<Rightarrow> unit outcome"
  make_converter :: "'p \<Rightarrow> string \<Rightarrow> string list \<Rightarrow> error + 'c"
  export_project :: "'d \<Rightarrow> path \<Rightarrow> 'c \<Rightarrow> string option \<Rightarrow> bool \<Rightarrow> world \<Rightarrow> unit outcome"
  dataset_extract :: "'d \<Rightarrow> string option \<Rightarrow> bool \<Rightarrow> bool option \<Rightarrow> error + 'd"
  encoded_items :: "'d \<Rightarrow> string list"
  extract_project :: "'d \<Rightarrow> path \<Rightarrow> string option \<Rightarrow> bool \<Rightarrow> bool option \<Rightarrow> world \<Rightarrow> unit outcome"
  transform_project :: "'d \<Rightarrow> string \<Rightarrow> path option \<Rightarrow> world \<Rightarrow> unit outcome"
  Comparator :: "pyfloat \<Rightarrow> pyfloat \<Rightarrow> error + 'm"
  DiffVisualizer :: "string option \<Rightarrow> 'm \<Rightarrow> string \<Rightarrow> error + 'v"
  save_dataset_diff :: "'v \<Rightarrow> 'd \<Rightarrow> 'd \<Rightarrow> world \<Rightarrow> unit outcome"

text \<open>
  The namespace \<^verbatim>\<open>args\<close> that \<^verbatim>\<open>argparse\<close> hands to a command. One record holds the
  attributes of all seven parsers; a command reads only those of its own parser.
\<close>

record args =
  dst_dir :: "string option"
  name :: "string option"
  overwrite :: bool
  copy :: bool
  skip_check :: bool
  source :: string
  format :: string
  filter_expr :: "string option"
  filter_annotations :: bool
  project_dir :: string
  output_format :: string
  extra_args :: "string list"
  remove_empty :: bool
  dry_run :: bool
  other_project_dir :: string
  iou_thresh :: pyfloat
  conf_thresh :: pyfloat
  transform :: string

text \<open>\<^verbatim>\<open>osp.abspath(None)\<close> raises \<^verbatim>\<open>TypeError\<close>; \<^verbatim>\<open>osp.basename\<close> of the root is empty.\<close>

definition osp_abspath :: "('p, 'd, 'c, 'm, 'v) env \<Rightarrow> string option \<Rightarrow> error + path" where
  "osp_abspath env d = (case d of None \<Rightarrow> Inl TypeError | Some s \<Rightarrow> Inr (abspath env s))"

definition basename :: "path \<Rightarrow> string" where
  "basename p = (if p = [] then [] else last p)"

section \<open>The commands\<close>

text \<open>
  \<^verbatim>\<open>create_command\<close> (lines 36 to 49) and \<^verbatim>\<open>import_command\<close> (lines 120 to 133) open with
  the same statements: resolve the destination, refuse a non-empty directory unless
  \<^verbatim>\<open>--overwrite\<close> is given and remove it when it is, create the directory, and refuse an
  existing project file. They are written once; the result is \<^verbatim>\<open>project_dir\<close>.
\<close>

definition prepare_project_dir ::
  "('p, 'd, 'c, 'm, 'v) env \<Rightarrow> args \<Rightarrow> world \<Rightarrow> path outcome" where
  "prepare_project_dir env args w =
     seq (lift (osp_abspath env (dst_dir args)) w) (\<lambda>project_dir w.
     let project_path = make_project_path env project_dir in
     seq (if isdir (fs w) project_dir \<and> listdir (fs w) project_dir \<noteq> Inr []
          then (if \<not> overwrite args
                then raise (CliException DirectoryExists) w
                else shutil_rmtree project_dir w)
          else return () w) (\<lambda>_ w.
     seq (os_makedirs project_dir (overwrite args) w) (\<lambda>_ w.
     if \<not> overwrite args \<and> isfile (fs w) project_path
     then raise (CliException ProjectFileExists) w
     else return project_dir w)))"

definition create_command :: "('p, 'd, 'c, 'm, 'v) env \<Rightarrow> args \<Rightarrow> world \<Rightarrow> int outcome" where
  "create_command env args w =
     seq (prepare_project_dir env args w) (\<lambda>project_dir w.
     let project_name = (case name args of None \<Rightarrow> basename project_dir | Some n \<Rightarrow> n) in
     seq (Project_generate env project_dir project_name w) (\<lambda>_ w.
     return 0 w))"

text \<open>
  \<^verbatim>\<open>dataset\<close> is bound only when \<^verbatim>\<open>not args.skip_check or args.copy\<close> holds, which \<^verbatim>\<open>args.copy\<close>
  implies: the read of an unbound \<^verbatim>\<open>dataset\<close> is written out, and is never reached.
\<close>

definition import_command :: "('p, 'd, 'c, 'm, 'v) env \<Rightarrow> args \<Rightarrow> world \<Rightarrow> int outcome" where
  "import_command env args w =
     seq (prepare_project_dir env args w) (\<lambda>project_dir w.
     let project_name = (case name args of None \<Rightarrow> basename project_dir | Some n \<Rightarrow> n);
         source = abspath env (source args) in
     seq (lift (Project_import_from env (fs w) source (format args)) w) (\<lambda>project w.
     let project = set_config env project project_name project_dir in
     seq (if \<not> skip_check args \<or> copy args
          then seq (lift (make_dataset env (fs w) project) w) (\<lambda>d w. return (Some d) w)
          else return None w) (\<lambda>dataset w.
     seq (if copy args
          then (case dataset of
                  None \<Rightarrow> raise UnboundLocalError w
                | Some d \<Rightarrow> dataset_save env d w)
          else project_save env project w) (\<lambda>_ w.
     return 0 w))))"

text \<open>
  \<^verbatim>\<open>if dst_dir:\<close> is Python truthiness: \<^verbatim>\<open>None\<close> and the empty string both take the
  \<^verbatim>\<open>else\<close> branch. Only \<^verbatim>\<open>KeyError\<close> of \<^verbatim>\<open>make_converter\<close> is caught, and raised again as a
  \<^verbatim>\<open>CliException\<close>. The statements from
  \<^verbatim>\<open>dst_dir = osp.abspath(dst_dir)\<close> on (lines 210 to 231) are \<open>export_to\<close>.
\<close>

definition truthy :: "string option \<Rightarrow> bool" where
  "truthy d = (case d of None \<Rightarrow> False | Some s \<Rightarrow> s \<noteq> [])"

definition except :: "error \<Rightarrow> error \<Rightarrow> error + 'a \<Rightarrow> error + 'a" where
  "except caught raised r =
     (case r of Inl e \<Rightarrow> if e = caught then Inl raised else Inl e | Inr x \<Rightarrow> Inr x)"

definition export_to ::
  "('p, 'd, 'c, 'm, 'v) env \<Rightarrow> args \<Rightarrow> 'p \<Rightarrow> string \<Rightarrow> world \<Rightarrow> int outcome" where
  "export_to env args project dst w =
     (let dst = abspath env dst in
      seq (lift (except KeyError (CliException (ConverterNotFound (output_format args)))
                   (make_converter env project (output_format args) (extra_args args))) w)
        (\<lambda>converter w.
      seq (lift (make_dataset env (fs w) project) w) (\<lambda>dataset w.
      seq (export_project env dataset dst converter (filter_expr args) (filter_annotations args) w)
        (\<lambda>_ w.
      return 0 w))))"

definition export_command :: "('p, 'd, 'c, 'm, 'v) env \<Rightarrow> args \<Rightarrow> world \<Rightarrow> int outcome" where
  "export_command env args w =
     seq (lift (load_project env (fs w) (project_dir args)) w) (\<lambda>project w.
     seq (case dst_dir args of
            Some d \<Rightarrow>
              if truthy (Some d)
              then (if \<not> overwrite args \<and> isdir (fs w) (abspath env d)
                       \<and> listdir (fs w) (abspath env d) \<noteq> Inr []
                    then raise (CliException DirectoryExists) w
                    else return d w)
              else return (generate_next_dir_name env (fs w) (''export_'' @ output_format args)) w
          | None \<Rightarrow>
              return (generate_next_dir_name env (fs w) (''export_'' @ output_format args)) w)
       (\<lambda>dst w.
     export_to env args project dst w))"

fun print_all :: "string list \<Rightarrow> world \<Rightarrow> unit outcome" where
  "print_all [] w = return () w"
| "print_all (s # ss) w = seq (print s w) (\<lambda>_ w. print_all ss w)"

text \<open>
  \<^verbatim>\<open>kwargs\<close> holds \<^verbatim>\<open>remove_empty\<close> only under \<^verbatim>\<open>--filter-annotations\<close>; it is an optional
  argument of the two dataset operations.
\<close>

definition extract_command :: "('p, 'd, 'c, 'm, 'v) env \<Rightarrow> args \<Rightarrow> world \<Rightarrow> int outcome" where
  "extract_command env args w =
     seq (lift (load_project env (fs w) (project_dir args)) w) (\<lambda>project w.
     seq (lift (osp_abspath env (dst_dir args)) w) (\<lambda>dst w.
     seq (if \<not> dry_run args then os_makedirs dst False w else return () w) (\<lambda>_ w.
     seq (lift (make_dataset env (fs w) project) w) (\<lambda>dataset w.
     let kwargs = (if filter_annotations args then Some (remove_empty args) else None) in
     if dry_run args
     then seq (lift (dataset_extract env dataset (filter_expr args) (filter_annotations args) kwargs) w)
            (\<lambda>dataset w.
          seq (print_all (encoded_items env dataset) w) (\<lambda>_ w.
          return 0 w))
     else seq (extract_project env dataset dst (filter_expr args) (filter_annotations args) kwargs w)
            (\<lambda>_ w.
          return 0 w)))))"

text \<open>
  In \<^verbatim>\<open>transform_command\<close> the local \<^verbatim>\<open>dst_dir\<close> is tested against \<^verbatim>\<open>None\<close> after
  \<^verbatim>\<open>osp.abspath\<close> returned it, and is passed on as \<^verbatim>\<open>save_dir\<close>, an argument for which
  \<^verbatim>\<open>None\<close> would mean the default. The local is an optional path for that reason.
\<close>

definition transform_command :: "('p, 'd, 'c, 'm, 'v) env \<Rightarrow> args \<Rightarrow> world \<Rightarrow> int outcome" where
  "transform_command env args w =
     seq (lift (load_project env (fs w) (project_dir args)) w) (\<lambda>project w.
     seq (lift (osp_abspath env (dst_dir args)) w) (\<lambda>p w.
     let dst = Some p in
     seq (case dst of None \<Rightarrow> return () w | Some d \<Rightarrow> os_makedirs d False w) (\<lambda>_ w.
     seq (lift (make_dataset env (fs w) project) w) (\<lambda>dataset w.
     seq (transform_project env dataset (transform args) dst w) (\<lambda>_ w.
     return 0 w)))))"

text \<open>
  \<^verbatim>\<open>diff_command\<close>: both projects are loaded, the comparator is built from the two
  thresholds, the destination is created when one is given (\<^verbatim>\<open>os.makedirs\<close> without
  \<^verbatim>\<open>exist_ok\<close>), then the visualizer is built and run on the two datasets, the first
  dataset being made before the second.
\<close>

definition diff_command :: "('p, 'd, 'c, 'm, 'v) env \<Rightarrow> args \<Rightarrow> world \<Rightarrow> int outcome" where
  "diff_command env args w =
     seq (lift (load_project env (fs w) (project_dir args)) w) (\<lambda>first_project w.
     seq (lift (load_project env (fs w) (other_project_dir args)) w) (\<lambda>second_project w.
     seq (lift (Comparator env (iou_thresh args) (conf_thresh args)) w) (\<lambda>comparator w.
     let save_dir = dst_dir args in
     seq (case save_dir of
            None \<Rightarrow> return () w
          | Some d \<Rightarrow> os_makedirs (abspath env d) False w) (\<lambda>_ w.
     seq (lift (DiffVisualizer env save_dir comparator (output_format args)) w) (\<lambda>visualizer w.
     seq (lift (make_dataset env (fs w) first_project) w) (\<lambda>first_dataset w.
     seq (lift (make_dataset env (fs w) second_project) w) (\<lambda>second_dataset w.
     seq (save_dataset_diff env visualizer first_dataset second_dataset w) (\<lambda>_ w.
     return 0 w))))))))"

section \<open>The parser of the diff command\<close>

text \<open>
  \<^verbatim>\<open>build_diff_parser\<close> declares one positional argument and five options. A command line
  is the positional argument and the options given, in order; a repeated option overwrites
  the earlier value. \<^verbatim>\<open>DiffVisualizer.Format\<close> and \<^verbatim>\<open>DiffVisualizer.DEFAULT_FORMAT\<close> are not
  in the file: the format names and the default are parameters. A format outside the
  choices makes \<^verbatim>\<open>argparse\<close> exit with status 2. The attributes that the other parsers
  declare do not exist in this namespace; \<open>diff_command\<close> reads none of them.
\<close>

datatype diff_option =
    Dest string
  | OutputFormat string
  | IouThresh pyfloat
  | ConfThresh pyfloat
  | ProjectDir string

fun set_option :: "diff_option \<Rightarrow> args \<Rightarrow> args" where
  "set_option (Dest s) a = a\<lparr>dst_dir := Some s\<rparr>"
| "set_option (OutputFormat f) a = a\<lparr>output_format := f\<rparr>"
| "set_option (IouThresh x) a = a\<lparr>iou_thresh := x\<rparr>"
| "set_option (ConfThresh x) a = a\<lparr>conf_thresh := x\<rparr>"
| "set_option (ProjectDir s) a = a\<lparr>project_dir := s\<rparr>"

definition diff_defaults :: "string \<Rightarrow> string \<Rightarrow> args" where
  "diff_defaults default_format other =
     \<lparr>dst_dir = None, name = None, overwrite = False, copy = False, skip_check = False,
      source = [], format = [], filter_expr = None, filter_annotations = False,
      project_dir = ''.'', output_format = default_format, extra_args = [],
      remove_empty = False, dry_run = False, other_project_dir = other,
      iou_thresh = Finite (1 / 2), conf_thresh = Finite (1 / 2), transform = []\<rparr>"

fun format_choice :: "string list \<Rightarrow> diff_option \<Rightarrow> bool" where
  "format_choice names (OutputFormat f) = (f \<in> set names)"
| "format_choice names _ = True"

definition build_diff_parser ::
  "string list \<Rightarrow> string \<Rightarrow> string \<Rightarrow> diff_option list \<Rightarrow> error + args" where
  "build_diff_parser format_names default_format other opts =
     (if list_all (format_choice format_names) opts
      then Inr (fold set_option opts (diff_defaults default_format other))
      else Inl (SystemExit 2))"

fun is_threshold :: "diff_option \<Rightarrow> bool" where
  "is_threshold (IouThresh x) = True"
| "is_threshold (ConfThresh x) = True"
| "is_threshold _ = False"

section \<open>The comparison engine\<close>

text \<open>
  \<^verbatim>\<open>diff_command\<close> hands the comparison to \<^verbatim>\<open>Comparator\<close> and \<^verbatim>\<open>DiffVisualizer\<close>, whose
  modules (\<^verbatim>\<open>datumaro.components.comparator\<close> and \<^verbatim>\<open>.diff\<close>) are not among the sources. This
  section writes them down from the specification: the data model of its section 3, the
  matcher, comparator and renderer of section 4, the interface of section 6 and the errors
  of section 7. Group-aware matching is an optional configuration for which the
  specification gives no result field; the matcher here runs with it switched off.
\<close>

text \<open>Modelled from the spec: the kinds of annotation (section 3); the annotation classes
  are missing.\<close>

datatype ann_kind = Box | Polygon | Mask | LabelOnly | PointSet

text \<open>Modelled from the spec: an annotation (section 3), the class being missing. The
  geometry payload is left open as \<open>'g\<close>; an absent confidence counts as 1.\<close>

record 'g annotation =
  kind :: ann_kind
  geometry :: 'g
  label :: "nat option"
  confidence :: "rat option"
  group_id :: "nat option"
  attributes :: "(string \<times> string) list"

text \<open>Modelled from the spec: a dataset as the core consumes it (section 3), the dataset
  class being missing: the annotations of each item, by item id, and the label vocabulary.\<close>

record 'g dataset =
  items :: "(string \<times> 'g annotation list) list"
  vocabulary :: "string list"

text \<open>Modelled from the spec: a candidate pair of the matcher (section 4.2), missing with
  the matcher: reference index, candidate index, overlap.\<close>

type_synonym pair = "nat \<times> nat \<times> rat"

text \<open>Modelled from the spec: \<^verbatim>\<open>MatchResult\<close> (section 3), missing with the comparator.\<close>

record match_result =
  matches :: "pair list"
  label_mismatches :: "pair list"
  unmatched_reference :: "nat list"
  unmatched_candidate :: "nat list"

text \<open>Modelled from the spec: the test of step 1 of the matcher (section 4.2), which is
  missing: a pair is a candidate when it is comparable and its overlap is at least the
  threshold. The overlap function is that of the geometry module (section 4.1), \<open>None\<close>
  standing for incomparable.\<close>

definition eligible ::
  "('a \<Rightarrow> 'a \<Rightarrow> rat option) \<Rightarrow> rat \<Rightarrow> 'a list \<Rightarrow> 'a list \<Rightarrow> nat \<times> nat \<Rightarrow> pair option" where
  "eligible ov thr R C ij =
     (case ij of (i, j) \<Rightarrow>
        case ov (R ! i) (C ! j) of
          None \<Rightarrow> None
        | Some s \<Rightarrow> if thr \<le> s then Some (i, j, s) else None)"

text \<open>Modelled from the spec: the candidate pairs of the missing matcher (step 1 of
  section 4.2), over every reference index and every candidate index.\<close>

definition candidate_pairs ::
  "('a \<Rightarrow> 'a \<Rightarrow> rat option) \<Rightarrow> rat \<Rightarrow> 'a list \<Rightarrow> 'a list \<Rightarrow> pair list" where
  "candidate_pairs ov thr R C =
     List.map_filter (eligible ov thr R C) (List.product [0..<length R] [0..<length C])"

text \<open>Modelled from the spec: the sort key of step 2 of the missing matcher (section 4.2):
  overlap descending, then reference index, then candidate index, in lexicographic order.\<close>

definition pair_key :: "pair \<Rightarrow> rat \<times> nat \<times> nat" where
  "pair_key p = (case p of (i, j, s) \<Rightarrow> (- s, i, j))"

text \<open>Modelled from the spec: step 2 of the missing matcher (section 4.2).\<close>

definition sort_pairs :: "pair list \<Rightarrow> pair list" where
  "sort_pairs ps = sort_key pair_key ps"


text \<open>Modelled from the spec: step 3 of the missing matcher (section 4.2): the pairs are
  taken in order, a pair being accepted when both its ends are unclaimed; \<open>cr\<close> and \<open>cc\<close>
  are the claimed reference and candidate indices.\<close>

fun greedy :: "pair list \<Rightarrow> nat list \<Rightarrow> nat list \<Rightarrow> pair list" where
  "greedy [] cr cc = []"
| "greedy ((i, j, s) # ps) cr cc =
     (if i \<in> set cr \<or> j \<in> set cc then greedy ps cr cc
      else (i, j, s) # greedy ps (i # cr) (j # cc))"

text \<open>Modelled from the spec: the pairs the missing matcher accepts, steps 1 to 3 of
  section 4.2.\<close>

definition accepted ::
  "('a \<Rightarrow> 'a \<Rightarrow> rat option) \<Rightarrow> rat \<Rightarrow> 'a list \<Rightarrow> 'a list \<Rightarrow> pair list" where
  "accepted ov thr R C = greedy (sort_pairs (candidate_pairs ov thr R C)) [] []"

text \<open>Modelled from the spec: \<^verbatim>\<open>match\<close>, the missing matcher (section 4.2): steps 4 and 5
  route an accepted pair by the agreement of its labels and emit the unclaimed indices.\<close>

definition match ::
  "('g annotation \<Rightarrow> 'g annotation \<Rightarrow> rat option) \<Rightarrow> rat
     \<Rightarrow> 'g annotation list \<Rightarrow> 'g annotation list \<Rightarrow> match_result" where
  "match ov thr R C =
     (let acc = accepted ov thr R C in
      \<lparr>matches = filter (\<lambda>(i, j, s). label (R ! i) = label (C ! j)) acc,
       label_mismatches = filter (\<lambda>(i, j, s). label (R ! i) \<noteq> label (C ! j)) acc,
       unmatched_reference = filter (\<lambda>i. i \<notin> set (map fst acc)) [0..<length R],
       unmatched_candidate = filter (\<lambda>j. j \<notin> set (map (fst \<circ> snd) acc)) [0..<length C]\<rparr>)"

text \<open>Modelled from the spec: a key of the confusion table (sections 3 and 9), missing with
  the comparator: a label, or the sentinel for no counterpart.\<close>

datatype cell = NoCounterpart | Labelled "nat option"

text \<open>Modelled from the spec: the increments of the confusion table for one item
  (section 4.3), missing with the comparator.\<close>

definition confusion_of ::
  "'g annotation list \<Rightarrow> 'g annotation list \<Rightarrow> match_result \<Rightarrow> (cell \<times> cell) list" where
  "confusion_of R C mr =
     map (\<lambda>(i, j, s). (Labelled (label (R ! i)), Labelled (label (R ! i)))) (matches mr)
     @ map (\<lambda>(i, j, s). (Labelled (label (R ! i)), Labelled (label (C ! j)))) (label_mismatches mr)
     @ map (\<lambda>i. (Labelled (label (R ! i)), NoCounterpart)) (unmatched_reference mr)
     @ map (\<lambda>j. (NoCounterpart, Labelled (label (C ! j)))) (unmatched_candidate mr)"

text \<open>Modelled from the spec: the per-item record of the missing \<^verbatim>\<open>DiffReport\<close> (sections 3
  and 4.3): the pairing of the reference annotations with the candidates that pass the
  confidence threshold, the positions of the candidates ignored for low confidence, and the
  item's increments of the confusion table.\<close>

record item_result =
  pairing :: match_result
  low_confidence :: "nat list"
  cells :: "(cell \<times> cell) list"

text \<open>Modelled from the spec: \<^verbatim>\<open>DiffReport\<close> (section 3), missing with the comparator.\<close>

record diff_report =
  per_item :: "(string \<times> item_result) list"
  confusion :: "(cell \<times> cell) list"

text \<open>Modelled from the spec: the confidence test of the missing comparator (section 4.3):
  a candidate stays when its confidence is not below the threshold.\<close>

definition confident :: "rat \<Rightarrow> 'g annotation \<Rightarrow> bool" where
  "confident thr a = (case confidence a of None \<Rightarrow> thr \<le> 1 | Some c \<Rightarrow> thr \<le> c)"

text \<open>Modelled from the spec: a comparator with its two thresholds (sections 4.3 and 6),
  the class being missing.\<close>

record comparator =
  iou_threshold :: rat
  conf_threshold :: rat

text \<open>Modelled from the spec: the comparison of one item by the missing comparator
  (section 4.3). An item on one side only has all its annotations unmatched; on an item of
  both sides the low-confidence candidates are set aside before matching.\<close>

definition compare_item ::
  "('g annotation \<Rightarrow> 'g annotation \<Rightarrow> rat option) \<Rightarrow> comparator
     \<Rightarrow> 'g dataset \<Rightarrow> 'g dataset \<Rightarrow> string \<Rightarrow> item_result" where
  "compare_item ov c A B item =
     (case (map_of (items A) item, map_of (items B) item) of
        (Some R, Some C) \<Rightarrow>
          (let keep = filter (confident (conf_threshold c)) C;
               mr = match ov (iou_threshold c) R keep in
           \<lparr>pairing = mr,
            low_confidence = filter (\<lambda>j. \<not> confident (conf_threshold c) (C ! j)) [0..<length C],
            cells = confusion_of R keep mr\<rparr>)
      | (Some R, None) \<Rightarrow>
          (let mr = match ov (iou_threshold c) R [] in
           \<lparr>pairing = mr, low_confidence = [], cells = confusion_of R [] mr\<rparr>)
      | (None, Some C) \<Rightarrow>
          (let mr = match ov (iou_threshold c) [] C in
           \<lparr>pairing = mr, low_confidence = [], cells = confusion_of [] C mr\<rparr>)
      | (None, None) \<Rightarrow>
          (let mr = match ov (iou_threshold c) [] [] in
           \<lparr>pairing = mr, low_confidence = [], cells = []\<rparr>))"

text \<open>Modelled from the spec: the threshold test of the missing comparator (sections 4.3,
  6 and 7): a threshold is a float in [0,1].\<close>

definition in_unit_interval :: "pyfloat \<Rightarrow> bool" where
  "in_unit_interval x = (case x of Finite q \<Rightarrow> 0 \<le> q \<and> q \<le> 1 | _ \<Rightarrow> False)"

text \<open>Modelled from the spec: the constructor of the missing \<^verbatim>\<open>Comparator\<close>, which is where
  \<^verbatim>\<open>diff_command\<close> supplies the thresholds. A threshold outside [0,1] is a configuration
  error, fatal and reported at once (sections 6 and 7); a threshold inside is kept as it
  is.\<close>

definition new_Comparator :: "pyfloat \<Rightarrow> pyfloat \<Rightarrow> error + comparator" where
  "new_Comparator iou conf =
     (case (iou, conf) of
        (Finite i, Finite c) \<Rightarrow>
          if in_unit_interval iou \<and> in_unit_interval conf
          then Inr \<lparr>iou_threshold = i, conf_threshold = c\<rparr>
          else Inl InvalidThreshold
      | _ \<Rightarrow> Inl InvalidThreshold)"

text \<open>Modelled from the spec: the reconciliation of the label vocabularies by the missing
  comparator (section 4.3): no index carries two different labels.\<close>

definition compatible :: "string list \<Rightarrow> string list \<Rightarrow> bool" where
  "compatible u v = list_all (\<lambda>(a, b). a = b) (zip u v)"

text \<open>Modelled from the spec: the comparison of two datasets by a built comparator
  (section 4.3), the method being missing: the vocabularies are checked, then every item id
  of either dataset is compared; the second dataset is the candidate side.\<close>

definition compare_datasets ::
  "('g annotation \<Rightarrow> 'g annotation \<Rightarrow> rat option) \<Rightarrow> comparator
     \<Rightarrow> 'g dataset \<Rightarrow> 'g dataset \<Rightarrow> error + diff_report" where
  "compare_datasets ov c A B =
     (if \<not> compatible (vocabulary A) (vocabulary B) then Inl IncompatibleVocabulary
      else
        (let ids = remdups (map fst (items A) @ map fst (items B));
             rs = map (\<lambda>item. (item, compare_item ov c A B item)) ids in
         Inr \<lparr>per_item = rs, confusion = concat (map (\<lambda>(item, r). cells r) rs)\<rparr>))"

text \<open>Modelled from the spec: \<^verbatim>\<open>compare\<close> as sections 4.3 and 6 give its contract, the
  function being missing: thresholds first, then the comparison.\<close>

definition compare ::
  "('g annotation \<Rightarrow> 'g annotation \<Rightarrow> rat option) \<Rightarrow> 'g dataset \<Rightarrow> 'g dataset
     \<Rightarrow> pyfloat \<Rightarrow> pyfloat \<Rightarrow> error + diff_report" where
  "compare ov A B iou conf =
     (case new_Comparator iou conf of
        Inl e \<Rightarrow> Inl e
      | Inr c \<Rightarrow> compare_datasets ov c A B)"

text \<open>Modelled from the spec: the output kinds of the missing renderer (section 4.4).\<close>

datatype output_kind = TextSummary | VisualOverlay | StructuredExport

text \<open>Modelled from the spec: what the engine takes from outside (sections 4.1, 4.4 and 6),
  none of it among the sources: the overlap of the geometry module, the output kind that a
  format name of \<^verbatim>\<open>DiffVisualizer.Format\<close> stands for, the text of a summary, and the
  writing of a report below a destination directory.\<close>

record 'g engine =
  overlap :: "'g annotation \<Rightarrow> 'g annotation \<Rightarrow> rat option"
  kind_of :: "string \<Rightarrow> output_kind"
  summary_text :: "diff_report \<Rightarrow> string"
  write_report :: "string \<Rightarrow> output_kind \<Rightarrow> diff_report \<Rightarrow> 'g dataset \<Rightarrow> 'g dataset
                     \<Rightarrow> world \<Rightarrow> unit outcome"

text \<open>Modelled from the spec: \<^verbatim>\<open>render\<close>, the missing renderer (section 4.4). Without a
  destination a text summary is printed to the standard output and every other kind fails
  with \<^verbatim>\<open>DestinationRequired\<close> (sections 4.4 and 7).\<close>

definition render ::
  "'g engine \<Rightarrow> diff_report \<Rightarrow> 'g dataset \<Rightarrow> 'g dataset \<Rightarrow> output_kind \<Rightarrow> string option
     \<Rightarrow> world \<Rightarrow> unit outcome" where
  "render E report A B k destination w =
     (case destination of
        None \<Rightarrow>
          if k = TextSummary then print (summary_text E report) w
          else raise DestinationRequired w
      | Some d \<Rightarrow> write_report E d k report A B w)"

text \<open>Modelled from the spec: the state of a \<^verbatim>\<open>DiffVisualizer\<close>, the class being missing:
  the three arguments \<^verbatim>\<open>diff_command\<close> builds it from.\<close>

record visualizer =
  save_dir :: "string option"
  used_comparator :: comparator
  output_kind :: output_kind

text \<open>Modelled from the spec: the constructor of the missing \<^verbatim>\<open>DiffVisualizer\<close>; it keeps
  its arguments.\<close>

definition new_DiffVisualizer ::
  "'g engine \<Rightarrow> string option \<Rightarrow> comparator \<Rightarrow> string \<Rightarrow> error + visualizer" where
  "new_DiffVisualizer E dir c fmt =
     Inr \<lparr>save_dir = dir, used_comparator = c, output_kind = kind_of E fmt\<rparr>"

text \<open>Modelled from the spec: \<^verbatim>\<open>save_dataset_diff\<close> of the missing \<^verbatim>\<open>DiffVisualizer\<close>: the
  data flow of section 2, the comparator on the two datasets and then the renderer on its
  report.\<close>

definition run_save_dataset_diff ::
  "'g engine \<Rightarrow> visualizer \<Rightarrow> 'g dataset \<Rightarrow> 'g dataset \<Rightarrow> world \<Rightarrow> unit outcome" where
  "run_save_dataset_diff E v A B w =
     seq (lift (compare_datasets (overlap E) (used_comparator v) A B) w) (\<lambda>report w.
     render E report A B (output_kind v) (save_dir v) w)"

text \<open>Modelled from the spec: the collaborators of \<^verbatim>\<open>diff_command\<close> with the missing
  \<^verbatim>\<open>Comparator\<close> and \<^verbatim>\<open>DiffVisualizer\<close> filled in by the engine above; the others stay as
  they are.\<close>

definition with_engine ::
  "'g engine \<Rightarrow> ('p, 'g dataset, 'c, comparator, visualizer) env
     \<Rightarrow> ('p, 'g dataset, 'c, comparator, visualizer) env" where
  "with_engine E env =
     env\<lparr>Comparator := new_Comparator,
         DiffVisualizer := new_DiffVisualizer E,
         save_dataset_diff := run_save_dataset_diff E\<rparr>"

section \<open>A concrete run\<close>

text \<open>
  An instance of the collaborators and a small disk, on which the commands can be run:
  the working directory is \<^verbatim>\<open>/home\<close>, a project is a directory holding \<^verbatim>\<open>project.yaml\<close>, and
  \<^verbatim>\<open>/home/proj\<close> is a project.
\<close>

definition sample_abspath :: "string \<Rightarrow> path" where
  "sample_abspath s = (if s = ''.'' \<or> s = [] then [''home''] else [''home'', s])"

definition box :: "nat \<Rightarrow> nat \<Rightarrow> nat option \<Rightarrow> rat option \<Rightarrow> (nat \<times> nat) annotation" where
  "box lo hi lab conf =
     \<lparr>kind = Box, geometry = (lo, hi), label = lab, confidence = conf, group_id = None,
      attributes = []\<rparr>"

definition sample_reference :: "(nat \<times> nat) annotation list" where
  "sample_reference = [box 0 2 (Some 0) None, box 5 9 (Some 1) None]"

definition sample_candidate :: "(nat \<times> nat) annotation list" where
  "sample_candidate =
     [box 5 9 (Some 0) (Some (9 / 10)), box 0 4 (Some 0) None, box 0 2 (Some 0) (Some (1 / 5))]"

definition sample_dataset :: "string \<Rightarrow> (nat \<times> nat) dataset" where
  "sample_dataset p =
     (if p = ''proj''
      then \<lparr>items = [(''img1'', sample_reference)], vocabulary = [''cat'', ''dog'']\<rparr>
      else \<lparr>items = [(''img1'', sample_candidate)], vocabulary = [''cat'', ''dog'']\<rparr>)"

definition sample_env ::
  "(string, (nat \<times> nat) dataset, string, comparator, visualizer) env" where
  "sample_env =
     \<lparr>abspath = sample_abspath,
      make_project_path = (\<lambda>p. p @ [''project.yaml'']),
      load_project = (\<lambda>t s. if isfile t (sample_abspath s @ [''project.yaml''])
                             then Inr s else Inl FileNotFoundError),
      generate_next_dir_name = (\<lambda>t s. s),
      Project_generate = (\<lambda>p n w. print n w),
      Project_import_from = (\<lambda>t p f. Inr f),
      set_config = (\<lambda>p n d. p),
      make_dataset = (\<lambda>t p. Inr (sample_dataset p)),
      dataset_save = (\<lambda>d w. return () w),
      project_save = (\<lambda>p w. return () w),
      make_converter = (\<lambda>p f a. if f = ''coco'' then Inr f else Inl KeyError),
      export_project = (\<lambda>d p c f a w. os_makedirs p True w),
      dataset_extract = (\<lambda>d f a r. Inr d),
      encoded_items = (\<lambda>d. map fst (items d)),
      extract_project = (\<lambda>d p f a r w. return () w),
      transform_project = (\<lambda>d m p w. return () w),
      Comparator = (\<lambda>i c. Inr \<lparr>iou_threshold = 0, conf_threshold = 0\<rparr>),
      DiffVisualizer = (\<lambda>s m f. Inr \<lparr>save_dir = s, used_comparator = m,
                                        output_kind = TextSummary\<rparr>),
      save_dataset_diff = (\<lambda>v a b w. print ''diff'' w)\<rparr>"

text \<open>
  For the engine: boxes are intervals of the line, their overlap is the length of the
  intersection over that of the union, \<^verbatim>\<open>simple\<close> is the text format, and a summary says how
  many pairs matched.
\<close>

definition interval_overlap ::
  "(nat \<times> nat) annotation \<Rightarrow> (nat \<times> nat) annotation \<Rightarrow> rat option" where
  "interval_overlap a b =
     (if kind a \<noteq> kind b then None
      else
        (let inter = min (snd (geometry a)) (snd (geometry b))
                       - max (fst (geometry a)) (fst (geometry b));
             union = (snd (geometry a) - fst (geometry a))
                       + (snd (geometry b) - fst (geometry b)) - inter in
         Some (if union = 0 then (if geometry a = geometry b then 1 else 0)
               else of_nat inter / of_nat union)))"

definition sample_engine :: "(nat \<times> nat) engine" where
  "sample_engine =
     \<lparr>overlap = interval_overlap,
      kind_of = (\<lambda>f. if f = ''simple'' then TextSummary else VisualOverlay),
      summary_text = (\<lambda>r. replicate (length (filter (\<lambda>c. fst c = snd c) (confusion r))) CHR ''=''),
      write_report = (\<lambda>d k r A B w. return () w)\<rparr>"

definition sample_world :: world where
  "sample_world =
     \<lparr>fs = Dir [(''home'', Dir [(''proj'', Dir [(''project.yaml'', File), (''old'', Dir [])]),
                                (''other'', Dir [(''project.yaml'', File)]),
                                (''notes'', File)])],
      stdout = []\<rparr>"

definition sample_args :: args where
  "sample_args = (diff_defaults ''simple'' ''other'')\<lparr>dst_dir := Some ''proj''\<rparr>"

section \<open>Properties of the file system\<close>

lemma stat_Nil: "stat t [] = Some (node_kind t)"
  by (simp add: stat_def)

lemma stat_File: "stat File (c # cs) = None"
  by (simp add: stat_def)

lemma stat_Dir: "stat (Dir es) (c # cs) = (case map_of es c of None \<Rightarrow> None | Some m \<Rightarrow> stat m cs)"
  by (simp add: stat_def split: option.splits)

lemmas stat_simps = stat_Nil stat_File stat_Dir

lemma lookup_fresh_dirs: "lookup (fresh_dirs cs) cs = Some (Dir [])"
  by (induction cs) auto

lemma stat_fresh_dirs: "stat (fresh_dirs cs) q = (if prefix q cs then Some Directory else None)"
proof (induction cs arbitrary: q)
  case Nil
  then show ?case by (cases q) (auto simp: stat_simps)
next
  case (Cons c cs)
  then show ?case by (cases q) (auto simp: stat_simps)
qed

lemma stat_remove_entry:
  "stat (remove_entry t p) q = (if p \<noteq> [] \<and> prefix p q then None else stat t q)"
proof (induction t p arbitrary: q rule: remove_entry.induct)
  case (1 t)
  then show ?case by simp
next
  case (2 c cs)
  then show ?case by (cases q) (auto simp: stat_simps)
next
  case (3 es c)
  then show ?case
    by (cases q) (auto simp: stat_simps AList.delete_conv' split: option.splits)
next
  case (4 es c d ds)
  then show ?case
    by (cases q) (auto simp: stat_simps AList.update_conv' split: option.splits)
qed

lemma stat_makedirs:
  "makedirs t p ok = Inr t' \<Longrightarrow> stat t' q = (if prefix q p then Some Directory else stat t q)"
proof (induction t p ok arbitrary: t' q rule: makedirs.induct)
  case (1 ok)
  then show ?case by simp
next
  case (2 es ok)
  then show ?case by (cases q) (auto simp: stat_simps split: if_splits)
next
  case (3 c cs ok)
  then show ?case by simp
next
  case (4 es c cs ok)
  then show ?case
    by (cases q) (auto simp: stat_simps stat_fresh_dirs AList.update_conv' split: option.splits sum.splits)
qed

lemma makedirs_fresh:
  "makedirs t p ok = Inr t' \<Longrightarrow> lookup t p = None \<Longrightarrow> lookup t' p = Some (Dir [])"
proof (induction t p ok arbitrary: t' rule: makedirs.induct)
  case (4 es c cs ok)
  then show ?case
    by (auto simp: lookup_fresh_dirs AList.update_conv' split: option.splits sum.splits)
qed auto

lemma makedirs_after_remove:
  "stat t p = Some Directory \<Longrightarrow> p \<noteq> [] \<Longrightarrow> \<exists>t'. makedirs (remove_entry t p) p ok = Inr t'"
proof (induction t p arbitrary: ok rule: remove_entry.induct)
  case (1 t)
  then show ?case by simp
next
  case (2 c cs)
  then show ?case by (simp add: stat_simps)
next
  case (3 es c)
  then show ?case by (simp add: AList.delete_conv')
next
  case (4 es c d ds)
  from "4.prems" obtain m where m: "map_of es c = Some m" "stat m (d # ds) = Some Directory"
    by (auto simp: stat_simps split: option.splits)
  from "4.IH" [OF m(1) m(2), of ok] obtain m' where
    "makedirs (remove_entry m (d # ds)) (d # ds) ok = Inr m'"
    by auto
  with m show ?case
    by (simp add: AList.update_conv')
qed

section \<open>Properties of the commands\<close>

lemma seq_Inl: "seq (Inl e, w) k = (Inl e, w)"
  by (simp add: seq_def)

lemma seq_Inr: "seq (Inr x, w) k = k x w"
  by (simp add: seq_def)

lemmas cmd_simps = seq_Inl seq_Inr lift_def return_def raise_def

lemma stat_makedirs_False:
  "stat t p \<noteq> None \<Longrightarrow> makedirs t p False = Inl FileExistsError"
proof (induction t p "False" rule: makedirs.induct)
  case (4 es c cs)
  then show ?case
    by (auto simp: stat_simps split: option.splits sum.splits)
qed (auto simp: stat_simps)

lemma stat_ancestor:
  "stat t p \<noteq> None \<Longrightarrow> strict_prefix q p \<Longrightarrow> stat t q = Some Directory"
proof (induction t p arbitrary: q rule: lookup.induct)
  case (1 n)
  then show ?case by simp
next
  case (2 c cs)
  then show ?case by (simp add: stat_simps)
next
  case (3 es c cs)
  then show ?case
    by (cases q) (auto simp: stat_simps split: option.splits)
qed

lemma prepare_refuses:
  assumes "dst_dir args = Some d" and "isdir (fs w) (abspath env d)"
    and "listdir (fs w) (abspath env d) \<noteq> Inr []" and "\<not> overwrite args"
  shows "prepare_project_dir env args w = (Inl (CliException DirectoryExists), w)"
  using assms by (simp add: prepare_project_dir_def osp_abspath_def cmd_simps)

lemma emptied_directory:
  assumes "isdir t p" and "p \<noteq> []"
  shows "\<exists>t'. makedirs (remove_entry t p) p True = Inr t' \<and> isdir t' p \<and> listdir t' p = Inr []
           \<and> (\<forall>q. stat t' q = (if strict_prefix p q then None else stat t q))"
proof -
  from assms obtain t' where t': "makedirs (remove_entry t p) p True = Inr t'"
    using makedirs_after_remove [of t p True] by (auto simp: isdir_def)
  have gone: "lookup (remove_entry t p) p = None"
    using stat_remove_entry [of t p p] assms(2) by (simp add: stat_def)
  have empty: "lookup t' p = Some (Dir [])"
    by (rule makedirs_fresh [OF t' gone])
  have "stat t' q = (if strict_prefix p q then None else stat t q)" for q
  proof (cases "prefix q p")
    case True
    then have "q = p \<or> strict_prefix q p" by (auto simp: strict_prefix_def)
    then have "stat t q = Some Directory"
      using assms(1) stat_ancestor [of t p q] by (auto simp: isdir_def)
    moreover have "\<not> strict_prefix p q" using True by (auto simp: strict_prefix_def)
    ultimately show ?thesis using stat_makedirs [OF t', of q] True by simp
  next
    case False
    then show ?thesis
      using stat_makedirs [OF t', of q] stat_remove_entry [of t p q] assms(2)
      by (auto simp: strict_prefix_def)
  qed
  with t' empty show ?thesis
    by (auto simp: isdir_def stat_def listdir_def)
qed

lemma prepare_overwrites:
  assumes "dst_dir args = Some d" and "isdir (fs w) (abspath env d)"
    and "listdir (fs w) (abspath env d) \<noteq> Inr []" and "overwrite args" and "abspath env d \<noteq> []"
    and "makedirs (remove_entry (fs w) (abspath env d)) (abspath env d) True = Inr t"
  shows "prepare_project_dir env args w = (Inr (abspath env d), w\<lparr>fs := t\<rparr>)"
  using assms
  by (auto simp: prepare_project_dir_def osp_abspath_def cmd_simps shutil_rmtree_def rmtree_def
      os_makedirs_def isdir_def stat_def split: option.splits node.splits)

lemma makedirs_existing:
  "lookup t p = Some (Dir es) \<Longrightarrow> makedirs t p True = Inr t"
proof (induction t p "True" rule: makedirs.induct)
  case (4 es' c cs)
  then show ?case
    by (auto simp: AList.update_triv split: option.splits sum.splits)
qed auto

lemma prepare_on_empty:
  assumes "dst_dir args = Some d" and "isdir (fs w) (abspath env d)"
    and "listdir (fs w) (abspath env d) = Inr []" and "overwrite args"
  shows "prepare_project_dir env args w = (Inr (abspath env d), w)"
proof -
  from assms(2) obtain es where "lookup (fs w) (abspath env d) = Some (Dir es)"
    by (auto simp: isdir_def stat_def elim: node_kind.elims)
  then have "makedirs (fs w) (abspath env d) True = Inr (fs w)"
    by (rule makedirs_existing)
  with assms show ?thesis
    by (simp add: prepare_project_dir_def osp_abspath_def cmd_simps os_makedirs_def)
qed

text \<open>
  Claim C9. \<^verbatim>\<open>create_command\<close> and \<^verbatim>\<open>import_command\<close>, on a destination that is a non-empty
  directory: without \<^verbatim>\<open>--overwrite\<close> both raise \<^verbatim>\<open>CliException\<close> and leave the world as it
  was. With \<^verbatim>\<open>--overwrite\<close> the directory is emptied first: the rest of either command runs
  on a disk where the destination is an empty directory, nothing is left below it, and every
  other path is as before. \<^verbatim>\<open>create_command\<close> then is \<^verbatim>\<open>Project.generate\<close> on that disk, and
  \<^verbatim>\<open>import_command\<close> is what it would be if started on that disk. On the root, removal
  fails and no project is made.
\<close>

theorem overwrite_guard:
  assumes "dst_dir args = Some d" and "pd = abspath env d" and "isdir (fs w) pd"
    and "listdir (fs w) pd \<noteq> Inr []"
  shows "(\<not> overwrite args \<longrightarrow>
            create_command env args w = (Inl (CliException DirectoryExists), w)
          \<and> import_command env args w = (Inl (CliException DirectoryExists), w))
       \<and> (overwrite args \<and> pd \<noteq> [] \<longrightarrow>
            (\<exists>t. isdir t pd \<and> listdir t pd = Inr []
               \<and> (\<forall>q. stat t q = (if strict_prefix pd q then None else stat (fs w) q))
               \<and> prepare_project_dir env args w = (Inr pd, w\<lparr>fs := t\<rparr>)
               \<and> create_command env args w =
                   seq (Project_generate env pd
                          (case name args of None \<Rightarrow> basename pd | Some n \<Rightarrow> n) (w\<lparr>fs := t\<rparr>))
                     (\<lambda>_ w. return 0 w)
               \<and> import_command env args w = import_command env args (w\<lparr>fs := t\<rparr>)))
       \<and> (overwrite args \<and> pd = [] \<longrightarrow>
            create_command env args w = (Inl OSError, w\<lparr>fs := Dir []\<rparr>)
          \<and> import_command env args w = (Inl OSError, w\<lparr>fs := Dir []\<rparr>))"
proof (intro conjI impI)
  assume "\<not> overwrite args"
  then have "prepare_project_dir env args w = (Inl (CliException DirectoryExists), w)"
    using assms prepare_refuses [of args d w env] by simp
  then show "create_command env args w = (Inl (CliException DirectoryExists), w)"
    and "import_command env args w = (Inl (CliException DirectoryExists), w)"
    by (simp_all add: create_command_def import_command_def cmd_simps)
next
  assume ov: "overwrite args \<and> pd \<noteq> []"
  from emptied_directory [OF assms(3)] ov obtain t where
    t: "makedirs (remove_entry (fs w) pd) pd True = Inr t" "isdir t pd" "listdir t pd = Inr []"
      "\<forall>q. stat t q = (if strict_prefix pd q then None else stat (fs w) q)"
    by blast
  have p1: "prepare_project_dir env args w = (Inr pd, w\<lparr>fs := t\<rparr>)"
    using prepare_overwrites [of args d w env t] assms ov t(1) by simp
  have p2: "prepare_project_dir env args (w\<lparr>fs := t\<rparr>) = (Inr pd, w\<lparr>fs := t\<rparr>)"
    using prepare_on_empty [of args d "w\<lparr>fs := t\<rparr>" env] assms ov t(2,3) by simp
  have c: "create_command env args w =
      seq (Project_generate env pd
             (case name args of None \<Rightarrow> basename pd | Some n \<Rightarrow> n) (w\<lparr>fs := t\<rparr>))
        (\<lambda>_ w. return 0 w)"
    by (simp add: create_command_def p1 cmd_simps)
  have i: "import_command env args w = import_command env args (w\<lparr>fs := t\<rparr>)"
    by (simp add: import_command_def p1 p2 seq_Inr)
  from t p1 c i show "\<exists>t. isdir t pd \<and> listdir t pd = Inr []
       \<and> (\<forall>q. stat t q = (if strict_prefix pd q then None else stat (fs w) q))
       \<and> prepare_project_dir env args w = (Inr pd, w\<lparr>fs := t\<rparr>)
       \<and> create_command env args w =
           seq (Project_generate env pd
                  (case name args of None \<Rightarrow> basename pd | Some n \<Rightarrow> n) (w\<lparr>fs := t\<rparr>))
             (\<lambda>_ w. return 0 w)
       \<and> import_command env args w = import_command env args (w\<lparr>fs := t\<rparr>)"
    by blast
next
  assume ov: "overwrite args \<and> pd = []"
  have "prepare_project_dir env args w = (Inl OSError, w\<lparr>fs := Dir []\<rparr>)"
    using assms ov
    by (auto simp: prepare_project_dir_def osp_abspath_def cmd_simps shutil_rmtree_def rmtree_def
        isdir_def stat_def split: option.splits node.splits)
  then show "create_command env args w = (Inl OSError, w\<lparr>fs := Dir []\<rparr>)"
    and "import_command env args w = (Inl OSError, w\<lparr>fs := Dir []\<rparr>)"
    by (simp_all add: create_command_def import_command_def cmd_simps)
qed

theorem overwrite_guard_witness:
  "dst_dir sample_args = Some ''proj'' \<and> isdir (fs sample_world) [''home'', ''proj'']
   \<and> listdir (fs sample_world) [''home'', ''proj''] \<noteq> Inr []
   \<and> create_command sample_env sample_args sample_world
       = (Inl (CliException DirectoryExists), sample_world)
   \<and> import_command sample_env sample_args sample_world
       = (Inl (CliException DirectoryExists), sample_world)
   \<and> (\<exists>t. listdir t [''home'', ''proj''] = Inr []
         \<and> create_command sample_env (sample_args\<lparr>overwrite := True\<rparr>) sample_world
             = (Inr 0, sample_world\<lparr>fs := t, stdout := [''proj'']\<rparr>))"
proof -
  have a: "dst_dir sample_args = Some ''proj''"
    and a': "dst_dir (sample_args\<lparr>overwrite := True\<rparr>) = Some ''proj''"
    and o: "\<not> overwrite sample_args" "overwrite (sample_args\<lparr>overwrite := True\<rparr>)"
    and n: "name (sample_args\<lparr>overwrite := True\<rparr>) = None"
    by (simp_all add: sample_args_def diff_defaults_def)
  have b: "[''home'', ''proj''] = abspath sample_env ''proj''"
    by (simp add: sample_env_def sample_abspath_def)
  have c: "isdir (fs sample_world) [''home'', ''proj'']"
    by (simp add: sample_world_def isdir_def stat_def)
  have d: "listdir (fs sample_world) [''home'', ''proj''] \<noteq> Inr []"
    by (simp add: sample_world_def listdir_def)
  have g: "Project_generate sample_env = (\<lambda>p n w. print n w)"
    by (simp add: sample_env_def)
  show ?thesis
    using overwrite_guard [OF a b c d] overwrite_guard [OF a' b c d] a c d o n
    by (auto simp: g basename_def print_def seq_def return_def sample_world_def)
qed

text \<open>
  Claim C2. A diff run given a destination that already exists, as a directory of any
  content or as a file, fails and leaves the world as it was: the visualizer is never
  reached, so nothing is written under the destination. Once both projects are loaded and
  the comparator is built, the failure is the \<^verbatim>\<open>FileExistsError\<close> of \<^verbatim>\<open>os.makedirs\<close>. The
  diff parser declares no overwrite mode and the command reads none.
\<close>

theorem diff_refuses_existing_destination:
  assumes "dst_dir args = Some d" and "exists (fs w) (abspath env d)"
  shows "(\<exists>e. diff_command env args w = (Inl e, w))
       \<and> (\<forall>p1 p2 m. load_project env (fs w) (project_dir args) = Inr p1
             \<and> load_project env (fs w) (other_project_dir args) = Inr p2
             \<and> Comparator env (iou_thresh args) (conf_thresh args) = Inr m
             \<longrightarrow> diff_command env args w = (Inl FileExistsError, w))
       \<and> (\<forall>b. diff_command env (args\<lparr>overwrite := b\<rparr>) w = diff_command env args w)"
proof -
  have mk: "os_makedirs (abspath env d) False w = (Inl FileExistsError, w)"
    using assms(2) stat_makedirs_False [of "fs w" "abspath env d"]
    by (simp add: os_makedirs_def exists_def)
  have 1: "\<exists>e. diff_command env args w = (Inl e, w)"
    using assms(1) mk
    by (auto simp: diff_command_def seq_def lift_def split: sum.splits)
  have 2: "diff_command env args w = (Inl FileExistsError, w)"
    if "load_project env (fs w) (project_dir args) = Inr p1"
      "load_project env (fs w) (other_project_dir args) = Inr p2"
      "Comparator env (iou_thresh args) (conf_thresh args) = Inr m" for p1 p2 m
    using that assms(1) mk by (simp add: diff_command_def cmd_simps)
  have 3: "diff_command env (args\<lparr>overwrite := b\<rparr>) w = diff_command env args w" for b
    by (simp add: diff_command_def)
  from 1 2 3 show ?thesis by blast
qed

lemma fold_keeps_thresholds:
  "\<not> list_ex is_threshold opts \<Longrightarrow>
     iou_thresh (fold set_option opts a) = iou_thresh a
   \<and> conf_thresh (fold set_option opts a) = conf_thresh a"
proof (induction opts arbitrary: a)
  case Nil
  then show ?case by simp
next
  case (Cons x xs)
  then show ?case by (cases x) simp_all
qed

lemma diff_command_Comparator:
  "c (iou_thresh args) (conf_thresh args) = Comparator env (iou_thresh args) (conf_thresh args)
   \<Longrightarrow> diff_command (env\<lparr>Comparator := c\<rparr>) args w = diff_command env args w"
  by (simp add: diff_command_def cong: option.case_cong)

text \<open>
  Claim C3. A diff command line that gives neither \<^verbatim>\<open>--iou-thresh\<close> nor \<^verbatim>\<open>--conf-thresh\<close>
  yields both thresholds as 0.5, and these are the values \<^verbatim>\<open>Comparator\<close> is called with:
  the command depends on the constructor only through its value at (0.5, 0.5), and a
  failure of the constructor there is the failure of the command.
\<close>

theorem default_thresholds:
  assumes "build_diff_parser names dflt other opts = Inr args"
    and "\<not> list_ex is_threshold opts"
  shows "iou_thresh args = Finite (1 / 2) \<and> conf_thresh args = Finite (1 / 2)
       \<and> (\<forall>(env :: ('p, 'd, 'c, 'm, 'v) env) w c. c (Finite (1 / 2)) (Finite (1 / 2))
                       = Comparator env (Finite (1 / 2)) (Finite (1 / 2))
             \<longrightarrow> diff_command (env\<lparr>Comparator := c\<rparr>) args w = diff_command env args w)
       \<and> (\<forall>(env :: ('p, 'd, 'c, 'm, 'v) env) w p1 p2 e.
             load_project env (fs w) (project_dir args) = Inr p1
             \<and> load_project env (fs w) (other_project_dir args) = Inr p2
             \<and> Comparator env (Finite (1 / 2)) (Finite (1 / 2)) = Inl e
             \<longrightarrow> diff_command env args w = (Inl e, w))"
proof -
  from assms(1) have args: "args = fold set_option opts (diff_defaults dflt other)"
    by (simp add: build_diff_parser_def split: if_splits)
  have t: "iou_thresh args = Finite (1 / 2)" "conf_thresh args = Finite (1 / 2)"
    using fold_keeps_thresholds [OF assms(2), of "diff_defaults dflt other"]
    by (simp_all add: args diff_defaults_def)
  have 1: "diff_command (env\<lparr>Comparator := c\<rparr>) args w = diff_command env args w"
    if "c (Finite (1 / 2)) (Finite (1 / 2)) = Comparator env (Finite (1 / 2)) (Finite (1 / 2))"
    for env :: "('p, 'd, 'c, 'm, 'v) env" and w c
    using that diff_command_Comparator [of c args env w] t by simp
  have 2: "diff_command env args w = (Inl e, w)"
    if "load_project env (fs w) (project_dir args) = Inr p1"
      "load_project env (fs w) (other_project_dir args) = Inr p2"
      "Comparator env (Finite (1 / 2)) (Finite (1 / 2)) = Inl e"
    for env :: "('p, 'd, 'c, 'm, 'v) env" and w p1 p2 e
    using that t by (simp add: diff_command_def cmd_simps)
  from t 1 2 show ?thesis by blast
qed

lemma transform_never_default:
  "(\<forall>ds m p w. tp ds m (Some p) w = transform_project env ds m (Some p) w) \<Longrightarrow>
     transform_command (env\<lparr>transform_project := tp\<rparr>) a w = transform_command env a w"
  by (simp add: transform_command_def osp_abspath_def cong: option.case_cong)

text \<open>
  Claim C8, as amended. With \<^verbatim>\<open>--dest\<close> omitted, \<^verbatim>\<open>extract_command\<close> and
  \<^verbatim>\<open>transform_command\<close> first load the project; a failure to load is the failure of the
  command, and once the project is loaded the command raises \<^verbatim>\<open>TypeError\<close> at
  \<^verbatim>\<open>osp.abspath(None)\<close>, with no directory created and the dataset untouched. Neither
  command ever succeeds without \<^verbatim>\<open>--dest\<close>. In \<^verbatim>\<open>transform_command\<close> the guard is never
  reached with \<^verbatim>\<open>None\<close>: what \<^verbatim>\<open>transform_project\<close> does for a missing \<^verbatim>\<open>save_dir\<close> has no
  influence on the command, whatever the arguments.
\<close>

theorem missing_dest:
  assumes "dst_dir args = None"
  shows "extract_command env args w =
           (case load_project env (fs w) (project_dir args) of
              Inl e \<Rightarrow> (Inl e, w) | Inr p \<Rightarrow> (Inl TypeError, w))
       \<and> transform_command env args w =
           (case load_project env (fs w) (project_dir args) of
              Inl e \<Rightarrow> (Inl e, w) | Inr p \<Rightarrow> (Inl TypeError, w))
       \<and> (\<forall>tp a w'. (\<forall>ds m p w. tp ds m (Some p) w = transform_project env ds m (Some p) w)
             \<longrightarrow> transform_command (env\<lparr>transform_project := tp\<rparr>) a w'
                 = transform_command env a w')"
  using assms transform_never_default [of _ env]
  by (simp add: extract_command_def transform_command_def osp_abspath_def cmd_simps
      split: sum.splits)

text \<open>
  Claim C10. In \<^verbatim>\<open>export_command\<close>, once the project is loaded: with \<^verbatim>\<open>--dest\<close> omitted (or
  empty) the destination is the name generated from \<^verbatim>\<open>'export_'\<close> and the output format,
  and the export runs with no test of that directory and no use of \<^verbatim>\<open>--overwrite\<close>; with a
  destination given, the command raises \<^verbatim>\<open>CliException\<close> exactly when \<^verbatim>\<open>--overwrite\<close> is
  absent and the destination is a non-empty directory, and exports to it otherwise.
\<close>

theorem export_destination_check:
  assumes "load_project env (fs w) (project_dir args) = Inr project"
  shows "(\<not> truthy (dst_dir args) \<longrightarrow>
            export_command env args w =
              export_to env args project
                (generate_next_dir_name env (fs w) (''export_'' @ output_format args)) w)
       \<and> (\<forall>d. dst_dir args = Some d \<and> d \<noteq> [] \<longrightarrow>
            export_command env args w =
              (if \<not> overwrite args \<and> isdir (fs w) (abspath env d)
                  \<and> listdir (fs w) (abspath env d) \<noteq> Inr []
               then (Inl (CliException DirectoryExists), w)
               else export_to env args project d w))
       \<and> (\<forall>b dst. export_to env (args\<lparr>overwrite := b\<rparr>) project dst w
                     = export_to env args project dst w)
       \<and> (\<not> truthy (dst_dir args) \<longrightarrow>
            (\<forall>b. export_command env (args\<lparr>overwrite := b\<rparr>) w = export_command env args w))"
  using assms
  by (auto simp: export_command_def export_to_def truthy_def cmd_simps split: option.splits)


lemma sample_loads:
  "load_project sample_env (fs sample_world) ''proj'' = Inr ''proj''"
  "load_project sample_env (fs sample_world) ''other'' = Inr ''other''"
  "load_project sample_env (fs sample_world) ''nowhere'' = Inl FileNotFoundError"
  by (simp_all add: sample_env_def sample_world_def sample_abspath_def isfile_def stat_def)

theorem diff_refuses_existing_destination_witness:
  "dst_dir (sample_args\<lparr>project_dir := ''proj''\<rparr>) = Some ''proj''
   \<and> exists (fs sample_world) (abspath sample_env ''proj'')
   \<and> diff_command sample_env (sample_args\<lparr>project_dir := ''proj''\<rparr>) sample_world
       = (Inl FileExistsError, sample_world)"
proof -
  have a: "dst_dir (sample_args\<lparr>project_dir := ''proj''\<rparr>) = Some ''proj''"
    by (simp add: sample_args_def diff_defaults_def)
  have b: "exists (fs sample_world) (abspath sample_env ''proj'')"
    by (simp add: sample_env_def sample_world_def sample_abspath_def exists_def stat_def)
  have c: "project_dir (sample_args\<lparr>project_dir := ''proj''\<rparr>) = ''proj''"
    "other_project_dir (sample_args\<lparr>project_dir := ''proj''\<rparr>) = ''other''"
    by (simp_all add: sample_args_def diff_defaults_def)
  have d: "Comparator sample_env = (\<lambda>i c. Inr \<lparr>iou_threshold = 0, conf_threshold = 0\<rparr>)"
    by (simp add: sample_env_def)
  show ?thesis
    using diff_refuses_existing_destination [OF a b] a b
    by (simp add: c d sample_loads)
qed

theorem default_thresholds_witness:
  "build_diff_parser [''simple''] ''simple'' ''other'' [Dest ''proj'', ProjectDir ''proj'']
     = Inr (sample_args\<lparr>project_dir := ''proj''\<rparr>)
   \<and> \<not> list_ex is_threshold [Dest ''proj'', ProjectDir ''proj'']
   \<and> iou_thresh (sample_args\<lparr>project_dir := ''proj''\<rparr>) = Finite (1 / 2)
   \<and> conf_thresh (sample_args\<lparr>project_dir := ''proj''\<rparr>) = Finite (1 / 2)"
proof -
  have a: "build_diff_parser [''simple''] ''simple'' ''other'' [Dest ''proj'', ProjectDir ''proj'']
     = Inr (sample_args\<lparr>project_dir := ''proj''\<rparr>)"
    by (simp add: build_diff_parser_def sample_args_def)
  have b: "\<not> list_ex is_threshold [Dest ''proj'', ProjectDir ''proj'']"
    by simp
  from default_thresholds [OF a b, where 'p = string]
  have "iou_thresh (sample_args\<lparr>project_dir := ''proj''\<rparr>) = Finite (1 / 2)
      \<and> conf_thresh (sample_args\<lparr>project_dir := ''proj''\<rparr>) = Finite (1 / 2)"
    by blast
  with a b show ?thesis by blast
qed

theorem missing_dest_witness:
  "dst_dir (sample_args\<lparr>dst_dir := None, project_dir := ''proj''\<rparr>) = None
   \<and> extract_command sample_env (sample_args\<lparr>dst_dir := None, project_dir := ''proj''\<rparr>)
       sample_world = (Inl TypeError, sample_world)
   \<and> transform_command sample_env (sample_args\<lparr>dst_dir := None, project_dir := ''proj''\<rparr>)
       sample_world = (Inl TypeError, sample_world)"
proof -
  have a: "dst_dir (sample_args\<lparr>dst_dir := None, project_dir := ''proj''\<rparr>) = None"
    by simp
  show ?thesis
    using missing_dest [OF a, of sample_env sample_world] a
    by (simp add: sample_loads)
qed

text \<open>
  The claim as stated, that every invocation without \<^verbatim>\<open>--dest\<close> raises \<^verbatim>\<open>TypeError\<close> before
  any work, fails where the project cannot be loaded: \<^verbatim>\<open>load_project\<close> is the first
  statement of both commands.
\<close>

theorem missing_dest_counterexample:
  "dst_dir (sample_args\<lparr>dst_dir := None, project_dir := ''nowhere''\<rparr>) = None
   \<and> extract_command sample_env (sample_args\<lparr>dst_dir := None, project_dir := ''nowhere''\<rparr>)
       sample_world = (Inl FileNotFoundError, sample_world)
   \<and> transform_command sample_env (sample_args\<lparr>dst_dir := None, project_dir := ''nowhere''\<rparr>)
       sample_world = (Inl FileNotFoundError, sample_world)
   \<and> FileNotFoundError \<noteq> TypeError"
  by (simp add: extract_command_def transform_command_def sample_loads cmd_simps)

theorem export_destination_check_witness:
  "load_project sample_env (fs sample_world)
     (project_dir (sample_args\<lparr>dst_dir := None, project_dir := ''proj'', output_format := ''coco''\<rparr>))
     = Inr ''proj''
   \<and> \<not> truthy (dst_dir (sample_args\<lparr>dst_dir := None, project_dir := ''proj'', output_format := ''coco''\<rparr>))
   \<and> fst (export_command sample_env
        (sample_args\<lparr>dst_dir := None, project_dir := ''proj'', output_format := ''coco''\<rparr>)
        sample_world) = Inr 0
   \<and> isdir (fs (snd (export_command sample_env
        (sample_args\<lparr>dst_dir := None, project_dir := ''proj'', output_format := ''coco''\<rparr>)
        sample_world))) [''home'', ''export_coco'']
   \<and> export_command sample_env
        (sample_args\<lparr>project_dir := ''proj'', output_format := ''coco''\<rparr>) sample_world
       = (Inl (CliException DirectoryExists), sample_world)"
proof -
  let ?a = "sample_args\<lparr>dst_dir := None, project_dir := ''proj'', output_format := ''coco''\<rparr>"
  let ?b = "sample_args\<lparr>project_dir := ''proj'', output_format := ''coco''\<rparr>"
  have l: "load_project sample_env (fs sample_world) (project_dir ?a) = Inr ''proj''"
    "load_project sample_env (fs sample_world) (project_dir ?b) = Inr ''proj''"
    by (simp_all add: sample_loads)
  have t: "\<not> truthy (dst_dir ?a)" by (simp add: truthy_def)
  have d: "dst_dir ?b = Some ''proj''" "\<not> overwrite ?b"
    by (simp_all add: sample_args_def diff_defaults_def)
  have e: "isdir (fs sample_world) (abspath sample_env ''proj'')"
    "listdir (fs sample_world) (abspath sample_env ''proj'') \<noteq> Inr []"
    by (simp_all add: sample_env_def sample_world_def sample_abspath_def isdir_def stat_def
        listdir_def)
  have x: "export_to sample_env ?a ''proj'' ''export_coco'' sample_world
      = (Inr 0, sample_world\<lparr>fs := Dir [(''home'',
           Dir [(''proj'', Dir [(''project.yaml'', File), (''old'', Dir [])]),
                (''other'', Dir [(''project.yaml'', File)]),
                (''notes'', File), (''export_coco'', Dir [])])]\<rparr>)"
    by (simp add: export_to_def sample_env_def sample_abspath_def except_def cmd_simps
        os_makedirs_def sample_world_def)
  have g: "generate_next_dir_name sample_env t s = s" for t s
    by (simp add: sample_env_def)
  show ?thesis
    using export_destination_check [OF l(1)] export_destination_check [OF l(2)] l t d e
    by (simp add: g x isdir_def stat_def)
qed

section \<open>Properties of the comparison engine\<close>

lemma set_map_filter_eq: "set (List.map_filter f xs) = {y. \<exists>x \<in> set xs. f x = Some y}"
  by (induction xs) (auto simp: List.map_filter_simps split: option.splits)

lemma eligible_Some:
  "eligible ov thr R C x = Some (i, j, s)
     \<longleftrightarrow> x = (i, j) \<and> ov (R ! i) (C ! j) = Some s \<and> thr \<le> s"
proof (cases x)
  case (Pair a b)
  show ?thesis
  proof (cases "ov (R ! a) (C ! b)")
    case None
    with Pair show ?thesis by (auto simp: eligible_def)
  next
    case (Some t)
    with Pair show ?thesis by (auto simp: eligible_def)
  qed
qed

lemma candidate_pairs_iff:
  "(i, j, s) \<in> set (candidate_pairs ov thr R C)
     \<longleftrightarrow> i < length R \<and> j < length C \<and> ov (R ! i) (C ! j) = Some s \<and> thr \<le> s"
proof -
  have "(i, j, s) \<in> set (candidate_pairs ov thr R C)
      \<longleftrightarrow> (\<exists>x \<in> set (List.product [0..<length R] [0..<length C]).
            eligible ov thr R C x = Some (i, j, s))"
    by (simp add: candidate_pairs_def set_map_filter_eq)
  also have "\<dots> \<longleftrightarrow> (i, j) \<in> set (List.product [0..<length R] [0..<length C])
      \<and> ov (R ! i) (C ! j) = Some s \<and> thr \<le> s"
    unfolding eligible_Some by blast
  finally show ?thesis by simp
qed








lemma greedy_subset: "set (greedy ps cr cc) \<subseteq> set ps"
  by (induction ps cr cc rule: greedy.induct) auto

lemma greedy_refs:
  "distinct (map fst (greedy ps cr cc)) \<and> set (map fst (greedy ps cr cc)) \<inter> set cr = {}"
  by (induction ps cr cc rule: greedy.induct) auto

lemma greedy_cands:
  "distinct (map (fst \<circ> snd) (greedy ps cr cc))
   \<and> set (map (fst \<circ> snd) (greedy ps cr cc)) \<inter> set cc = {}"
  by (induction ps cr cc rule: greedy.induct) auto

lemma greedy_maximal:
  "(i, j, s) \<in> set ps \<Longrightarrow>
     i \<in> set cr \<union> set (map fst (greedy ps cr cc))
   \<or> j \<in> set cc \<union> set (map (fst \<circ> snd) (greedy ps cr cc))"
proof (induction ps cr cc rule: greedy.induct)
  case (1 cr cc)
  then show ?case by simp
next
  case (2 i' j' s' ps cr cc)
  show ?case
  proof (cases "i' \<in> set cr \<or> j' \<in> set cc")
    case True
    with 2 show ?thesis by auto
  next
    case False
    with 2 show ?thesis by auto
  qed
qed

lemma accepted_candidate:
  assumes "p \<in> set (accepted ov thr R C)"
  shows "p \<in> set (candidate_pairs ov thr R C)"
proof -
  have "set (accepted ov thr R C) \<subseteq> set (candidate_pairs ov thr R C)"
    using greedy_subset [of "sort_pairs (candidate_pairs ov thr R C)" "[]" "[]"]
    by (simp add: accepted_def sort_pairs_def)
  with assms show ?thesis by blast
qed

lemma accepted_bounds:
  assumes "(i, j, s) \<in> set (accepted ov thr R C)"
  shows "i < length R \<and> j < length C"
  using accepted_candidate [OF assms] by (simp add: candidate_pairs_iff)

lemma split_by_filter:
  assumes "distinct (map f xs)"
  shows "distinct (map f (filter P xs @ filter (\<lambda>x. \<not> P x) xs))
       \<and> set (map f (filter P xs @ filter (\<lambda>x. \<not> P x) xs)) = set (map f xs)"
proof -
  have m: "mset (map f (filter P xs @ filter (\<lambda>x. \<not> P x) xs)) = mset (map f xs)"
    by (induction xs) auto
  from mset_eq_imp_distinct_iff [OF m] assms
  have "distinct (map f (filter P xs @ filter (\<lambda>x. \<not> P x) xs))" by simp
  moreover from mset_eq_setD [OF m]
  have "set (map f (filter P xs @ filter (\<lambda>x. \<not> P x) xs)) = set (map f xs)" .
  ultimately show ?thesis by simp
qed

lemma routed_pairs:
  "matches (match ov thr R C) @ label_mismatches (match ov thr R C) =
     filter (\<lambda>(i, j, s). label (R ! i) = label (C ! j)) (accepted ov thr R C)
     @ filter (\<lambda>x. \<not> (case x of (i, j, s) \<Rightarrow> label (R ! i) = label (C ! j))) (accepted ov thr R C)"
proof -
  have "filter (\<lambda>(i, j, s). label (R ! i) \<noteq> label (C ! j)) xs
      = filter (\<lambda>x. \<not> (case x of (i, j, s) \<Rightarrow> label (R ! i) = label (C ! j))) xs" for xs
    by (rule filter_cong) auto
  then show ?thesis by (simp add: match_def Let_def)
qed

lemma unmatched_complement:
  assumes "distinct claimed" and "set claimed \<subseteq> {..<n}"
  shows "distinct (claimed @ filter (\<lambda>i. i \<notin> set claimed) [0..<n])
       \<and> set (claimed @ filter (\<lambda>i. i \<notin> set claimed) [0..<n]) = {..<n}"
  using assms by auto

text \<open>
  Claim C6. The output of the matcher partitions the input indices: the reference indices
  of the matches and label mismatches, followed by the unmatched reference indices, are a
  list without repetition whose elements are exactly the positions of the reference list;
  the same holds on the candidate side.
\<close>

theorem match_partition:
  "distinct (map fst (matches (match ov thr R C) @ label_mismatches (match ov thr R C))
             @ unmatched_reference (match ov thr R C))
   \<and> set (map fst (matches (match ov thr R C) @ label_mismatches (match ov thr R C))
           @ unmatched_reference (match ov thr R C)) = {..<length R}
   \<and> distinct (map (fst \<circ> snd) (matches (match ov thr R C) @ label_mismatches (match ov thr R C))
               @ unmatched_candidate (match ov thr R C))
   \<and> set (map (fst \<circ> snd) (matches (match ov thr R C) @ label_mismatches (match ov thr R C))
           @ unmatched_candidate (match ov thr R C)) = {..<length C}"
proof -
  let ?acc = "accepted ov thr R C"
  let ?routed = "matches (match ov thr R C) @ label_mismatches (match ov thr R C)"
  have dr: "distinct (map fst ?acc)" and dc: "distinct (map (fst \<circ> snd) ?acc)"
    using greedy_refs [of "sort_pairs (candidate_pairs ov thr R C)" "[]" "[]"]
      greedy_cands [of "sort_pairs (candidate_pairs ov thr R C)" "[]" "[]"]
    by (simp_all add: accepted_def)
  have br: "set (map fst ?acc) \<subseteq> {..<length R}"
    and bc: "set (map (fst \<circ> snd) ?acc) \<subseteq> {..<length C}"
    using accepted_bounds [of _ _ _ ov thr R C] by auto
  have r: "distinct (map fst ?routed)" "set (map fst ?routed) = set (map fst ?acc)"
    using split_by_filter [OF dr] unfolding routed_pairs by blast+
  have c: "distinct (map (fst \<circ> snd) ?routed)"
    "set (map (fst \<circ> snd) ?routed) = set (map (fst \<circ> snd) ?acc)"
    using split_by_filter [OF dc] unfolding routed_pairs by blast+
  define cr where "cr = map fst ?routed"
  define cc where "cc = map (fst \<circ> snd) ?routed"
  have ur: "unmatched_reference (match ov thr R C) = filter (\<lambda>i. i \<notin> set cr) [0..<length R]"
    unfolding cr_def r(2) by (simp add: match_def Let_def)
  have uc: "unmatched_candidate (match ov thr R C) = filter (\<lambda>j. j \<notin> set cc) [0..<length C]"
    unfolding cc_def c(2) by (simp add: match_def Let_def)
  have hr: "distinct cr" "set cr \<subseteq> {..<length R}"
    using r br by (simp_all add: cr_def)
  have hc: "distinct cc" "set cc \<subseteq> {..<length C}"
    using c bc by (simp_all add: cc_def)
  have 1: "distinct (cr @ unmatched_reference (match ov thr R C))
      \<and> set (cr @ unmatched_reference (match ov thr R C)) = {..<length R}"
    unfolding ur by (rule unmatched_complement [OF hr])
  have 2: "distinct (cc @ unmatched_candidate (match ov thr R C))
      \<and> set (cc @ unmatched_candidate (match ov thr R C)) = {..<length C}"
    unfolding uc by (rule unmatched_complement [OF hc])
  from 1 2 show ?thesis unfolding cr_def cc_def by blast
qed

text \<open>
  Claim C7. A comparable pair is a candidate for matching exactly when its overlap is at
  least the threshold. A pair whose overlap equals the threshold is therefore a candidate,
  and the matcher never leaves both of its ends unmatched.
\<close>

theorem threshold_inclusive:
  assumes "i < length R" and "j < length C" and "ov (R ! i) (C ! j) = Some s"
  shows "((i, j, s) \<in> set (candidate_pairs ov thr R C) \<longleftrightarrow> thr \<le> s)
       \<and> (i, j, s) \<in> set (candidate_pairs ov s R C)
       \<and> \<not> (i \<in> set (unmatched_reference (match ov s R C))
            \<and> j \<in> set (unmatched_candidate (match ov s R C)))"
proof -
  have 1: "(i, j, s) \<in> set (candidate_pairs ov thr R C) \<longleftrightarrow> thr \<le> s"
    using assms by (simp add: candidate_pairs_iff)
  have 2: "(i, j, s) \<in> set (candidate_pairs ov s R C)"
    using assms by (simp add: candidate_pairs_iff)
  then have "(i, j, s) \<in> set (sort_pairs (candidate_pairs ov s R C))"
    by (simp add: sort_pairs_def)
  from greedy_maximal [OF this, of "[]" "[]"]
  have "i \<in> set (map fst (accepted ov s R C)) \<or> j \<in> set (map (fst \<circ> snd) (accepted ov s R C))"
    by (simp add: accepted_def)
  then have 3: "\<not> (i \<in> set (unmatched_reference (match ov s R C))
            \<and> j \<in> set (unmatched_candidate (match ov s R C)))"
    by (auto simp: match_def Let_def)
  from 1 2 3 show ?thesis by blast
qed

lemma new_Comparator_invalid:
  "\<not> in_unit_interval i \<or> \<not> in_unit_interval c \<Longrightarrow> new_Comparator i c = Inl InvalidThreshold"
  by (cases i; cases c) (auto simp: new_Comparator_def)

lemma new_Comparator_keeps:
  "new_Comparator i c = Inr m \<Longrightarrow> i = Finite (iou_threshold m) \<and> c = Finite (conf_threshold m)"
  by (cases i; cases c) (auto simp: new_Comparator_def split: if_splits)

lemma with_engine_simps:
  "load_project (with_engine E env) = load_project env"
  "make_dataset (with_engine E env) = make_dataset env"
  "abspath (with_engine E env) = abspath env"
  "Comparator (with_engine E env) = new_Comparator"
  "DiffVisualizer (with_engine E env) = new_DiffVisualizer E"
  "save_dataset_diff (with_engine E env) = run_save_dataset_diff E"
  by (simp_all add: with_engine_def)

text \<open>
  Claim C1. With an IoU or confidence threshold outside [0,1], \<open>compare\<close> fails with
  \<^verbatim>\<open>InvalidThreshold\<close> whatever the datasets. \<^verbatim>\<open>diff_command\<close>, run with the engine, fails with
  \<^verbatim>\<open>InvalidThreshold\<close> as soon as both projects are loaded, and in every case it fails with
  the world as it was: nothing is compared, printed or created. A threshold is never
  clamped: a comparator that is built holds the two values it was given.
\<close>

theorem invalid_threshold:
  fixes E :: "'g engine" and env :: "('p, 'g dataset, 'c, comparator, visualizer) env"
  assumes "\<not> in_unit_interval (iou_thresh args) \<or> \<not> in_unit_interval (conf_thresh args)"
  shows "(\<forall>ov (A :: 'g dataset) B.
            compare ov A B (iou_thresh args) (conf_thresh args) = Inl InvalidThreshold)
       \<and> (\<forall>p1 p2. load_project env (fs w) (project_dir args) = Inr p1
             \<and> load_project env (fs w) (other_project_dir args) = Inr p2
             \<longrightarrow> diff_command (with_engine E env) args w = (Inl InvalidThreshold, w))
       \<and> (\<exists>e. diff_command (with_engine E env) args w = (Inl e, w))
       \<and> (\<forall>i c m. new_Comparator i c = Inr m
             \<longrightarrow> i = Finite (iou_threshold m) \<and> c = Finite (conf_threshold m))"
proof -
  have bad: "new_Comparator (iou_thresh args) (conf_thresh args) = Inl InvalidThreshold"
    by (rule new_Comparator_invalid [OF assms])
  have 1: "compare ov A B (iou_thresh args) (conf_thresh args) = Inl InvalidThreshold"
    for ov and A B :: "'g dataset"
    by (simp add: compare_def bad)
  have 2: "diff_command (with_engine E env) args w = (Inl InvalidThreshold, w)"
    if "load_project env (fs w) (project_dir args) = Inr p1"
      "load_project env (fs w) (other_project_dir args) = Inr p2" for p1 p2
    using that by (simp add: diff_command_def with_engine_simps bad cmd_simps)
  have 3: "\<exists>e. diff_command (with_engine E env) args w = (Inl e, w)"
    by (auto simp: diff_command_def with_engine_simps bad seq_def lift_def split: sum.splits)
  from 1 2 3 new_Comparator_keeps show ?thesis by blast
qed

text \<open>
  Claim C4. Rendering without a destination prints the summary to the standard output for
  the text format and fails with \<^verbatim>\<open>DestinationRequired\<close> for every other format, writing
  nothing. For \<^verbatim>\<open>diff_command\<close> run with the engine and without \<^verbatim>\<open>--dest\<close>, once the projects
  are loaded and compared: the text format returns 0 with the summary appended to the
  standard output and the disk untouched, any other format raises \<^verbatim>\<open>DestinationRequired\<close>
  with the world as it was.
\<close>

theorem render_without_destination:
  fixes E :: "'g engine" and env :: "('p, 'g dataset, 'c, comparator, visualizer) env"
  assumes "dst_dir args = None"
    and "load_project env (fs w) (project_dir args) = Inr p1"
    and "load_project env (fs w) (other_project_dir args) = Inr p2"
    and "new_Comparator (iou_thresh args) (conf_thresh args) = Inr c"
    and "make_dataset env (fs w) p1 = Inr A" and "make_dataset env (fs w) p2 = Inr B"
    and "compare_datasets (overlap E) c A B = Inr report"
  shows "(\<forall>r k w'. render E r A B k None w' =
            (if k = TextSummary then (Inr (), w'\<lparr>stdout := stdout w' @ [summary_text E r]\<rparr>)
             else (Inl DestinationRequired, w')))
       \<and> diff_command (with_engine E env) args w =
           (if kind_of E (output_format args) = TextSummary
            then (Inr 0, w\<lparr>stdout := stdout w @ [summary_text E report]\<rparr>)
            else (Inl DestinationRequired, w))"
  using assms
  by (simp add: diff_command_def with_engine_simps cmd_simps render_def print_def
      new_DiffVisualizer_def run_save_dataset_diff_def)

lemma sample_overlaps:
  "interval_overlap (box 0 2 a b) (box 0 4 c d) = Some (1 / 2)"
  "interval_overlap (box 0 2 a b) (box 0 2 c d) = Some 1"
  "interval_overlap (box 0 2 a b) (box 5 9 c d) = Some 0"
  "interval_overlap (box 5 9 a b) (box 5 9 c d) = Some 1"
  "interval_overlap (box 5 9 a b) (box 0 4 c d) = Some 0"
  "interval_overlap (box 5 9 a b) (box 0 2 c d) = Some 0"
  by (simp_all add: interval_overlap_def box_def Let_def)

lemma sample_candidates:
  "candidate_pairs interval_overlap (1 / 2) sample_reference sample_candidate
     = [(0, 1, 1 / 2), (0, 2, 1), (1, 0, 1)]"
  by (simp add: candidate_pairs_def sample_reference_def sample_candidate_def eligible_def
      sample_overlaps List.map_filter_simps upt_rec)


lemma sample_sorted':
  "sort_pairs [(0, 1, 1 / 2), (0, 2, 1), (1, 0, 1)] = [(0, 2, 1), (1, 0, 1), (0, 1, 1 / 2)]"
  by (simp add: sort_pairs_def pair_key_def less_eq_prod_def less_prod_def)

lemma sample_accepted:
  "accepted interval_overlap (1 / 2) sample_reference sample_candidate = [(0, 2, 1), (1, 0, 1)]"
  unfolding accepted_def sample_candidates sample_sorted' by simp

lemma sample_match:
  "match interval_overlap (1 / 2) sample_reference sample_candidate
     = \<lparr>matches = [(0, 2, 1)], label_mismatches = [(1, 0, 1)],
        unmatched_reference = [], unmatched_candidate = [1]\<rparr>"
  unfolding match_def Let_def sample_accepted
  by (simp add: sample_reference_def sample_candidate_def box_def upt_rec)



theorem match_partition_witness:
  "match interval_overlap (1 / 2) sample_reference sample_candidate
     = \<lparr>matches = [(0, 2, 1)], label_mismatches = [(1, 0, 1)],
        unmatched_reference = [], unmatched_candidate = [1]\<rparr>
   \<and> set (map fst (matches (match interval_overlap (1 / 2) sample_reference sample_candidate)
                    @ label_mismatches (match interval_overlap (1 / 2) sample_reference sample_candidate))
           @ unmatched_reference (match interval_overlap (1 / 2) sample_reference sample_candidate))
       = {..<length sample_reference}
   \<and> set (map (fst \<circ> snd) (matches (match interval_overlap (1 / 2) sample_reference sample_candidate)
                    @ label_mismatches (match interval_overlap (1 / 2) sample_reference sample_candidate))
           @ unmatched_candidate (match interval_overlap (1 / 2) sample_reference sample_candidate))
       = {..<length sample_candidate}"
  using match_partition [of interval_overlap "1 / 2" sample_reference sample_candidate] sample_match
  by blast

theorem threshold_inclusive_witness:
  "0 < length sample_reference \<and> 1 < length sample_candidate
   \<and> interval_overlap (sample_reference ! 0) (sample_candidate ! 1) = Some (1 / 2)
   \<and> (0, 1, 1 / 2) \<in> set (candidate_pairs interval_overlap (1 / 2) sample_reference sample_candidate)
   \<and> (0, 1, 1 / 2) \<notin> set (candidate_pairs interval_overlap (3 / 5) sample_reference sample_candidate)"
proof -
  have a: "0 < length sample_reference" and b: "1 < length sample_candidate"
    by (simp_all add: sample_reference_def sample_candidate_def)
  have c: "interval_overlap (sample_reference ! 0) (sample_candidate ! 1) = Some (1 / 2)"
    by (simp add: sample_reference_def sample_candidate_def sample_overlaps)
  note t = threshold_inclusive [where i = 0 and j = 1 and R = sample_reference
      and C = sample_candidate and ov = interval_overlap and s = "1 / 2", OF a b c]
  from t [of "1 / 2"] t [of "3 / 5"] a b c show ?thesis by simp
qed

theorem invalid_threshold_witness:
  "\<not> in_unit_interval (iou_thresh (sample_args\<lparr>dst_dir := None, project_dir := ''proj'',
                                                 iou_thresh := Finite (3 / 2)\<rparr>))
   \<and> diff_command (with_engine sample_engine sample_env)
        (sample_args\<lparr>dst_dir := None, project_dir := ''proj'', iou_thresh := Finite (3 / 2)\<rparr>)
        sample_world = (Inl InvalidThreshold, sample_world)
   \<and> \<not> in_unit_interval (conf_thresh (sample_args\<lparr>project_dir := ''proj'', conf_thresh := NaN\<rparr>))
   \<and> diff_command (with_engine sample_engine sample_env)
        (sample_args\<lparr>project_dir := ''proj'', conf_thresh := NaN\<rparr>)
        sample_world = (Inl InvalidThreshold, sample_world)"
proof -
  let ?a = "sample_args\<lparr>dst_dir := None, project_dir := ''proj'', iou_thresh := Finite (3 / 2)\<rparr>"
  let ?b = "sample_args\<lparr>project_dir := ''proj'', conf_thresh := NaN\<rparr>"
  have a: "\<not> in_unit_interval (iou_thresh ?a) \<or> \<not> in_unit_interval (conf_thresh ?a)"
    and b: "\<not> in_unit_interval (iou_thresh ?b) \<or> \<not> in_unit_interval (conf_thresh ?b)"
    by (simp_all add: in_unit_interval_def)
  have l: "load_project sample_env (fs sample_world) (project_dir ?a) = Inr ''proj''"
    "load_project sample_env (fs sample_world) (other_project_dir ?a) = Inr ''other''"
    "load_project sample_env (fs sample_world) (project_dir ?b) = Inr ''proj''"
    "load_project sample_env (fs sample_world) (other_project_dir ?b) = Inr ''other''"
    by (simp_all add: sample_args_def diff_defaults_def sample_loads)
  from invalid_threshold [OF a, of sample_env sample_world sample_engine]
    invalid_threshold [OF b, of sample_env sample_world sample_engine] l
  show ?thesis by (simp add: in_unit_interval_def)
qed

theorem render_without_destination_witness:
  "dst_dir (sample_args\<lparr>dst_dir := None, project_dir := ''proj''\<rparr>) = None
   \<and> kind_of sample_engine ''simple'' = TextSummary
   \<and> fst (diff_command (with_engine sample_engine sample_env)
        (sample_args\<lparr>dst_dir := None, project_dir := ''proj''\<rparr>) sample_world) = Inr 0
   \<and> fs (snd (diff_command (with_engine sample_engine sample_env)
        (sample_args\<lparr>dst_dir := None, project_dir := ''proj''\<rparr>) sample_world)) = fs sample_world
   \<and> length (stdout (snd (diff_command (with_engine sample_engine sample_env)
        (sample_args\<lparr>dst_dir := None, project_dir := ''proj''\<rparr>) sample_world))) = 1
   \<and> kind_of sample_engine ''overlay'' = VisualOverlay
   \<and> diff_command (with_engine sample_engine sample_env)
        (sample_args\<lparr>dst_dir := None, project_dir := ''proj'', output_format := ''overlay''\<rparr>)
        sample_world = (Inl DestinationRequired, sample_world)"
proof -
  let ?a = "sample_args\<lparr>dst_dir := None, project_dir := ''proj''\<rparr>"
  let ?b = "sample_args\<lparr>dst_dir := None, project_dir := ''proj'', output_format := ''overlay''\<rparr>"
  let ?c = "\<lparr>iou_threshold = 1 / 2, conf_threshold = 1 / 2\<rparr>"
  have d: "dst_dir ?a = None" "dst_dir ?b = None" by simp_all
  have l: "load_project sample_env (fs sample_world) (project_dir ?a) = Inr ''proj''"
    "load_project sample_env (fs sample_world) (other_project_dir ?a) = Inr ''other''"
    "load_project sample_env (fs sample_world) (project_dir ?b) = Inr ''proj''"
    "load_project sample_env (fs sample_world) (other_project_dir ?b) = Inr ''other''"
    by (simp_all add: sample_args_def diff_defaults_def sample_loads)
  have c: "new_Comparator (iou_thresh ?a) (conf_thresh ?a) = Inr ?c"
    "new_Comparator (iou_thresh ?b) (conf_thresh ?b) = Inr ?c"
    by (simp_all add: sample_args_def diff_defaults_def new_Comparator_def in_unit_interval_def)
  have m: "make_dataset sample_env (fs sample_world) ''proj'' = Inr (sample_dataset ''proj'')"
    "make_dataset sample_env (fs sample_world) ''other'' = Inr (sample_dataset ''other'')"
    by (simp_all add: sample_env_def)
  have "compatible (vocabulary (sample_dataset ''proj'')) (vocabulary (sample_dataset ''other''))"
    by (simp add: compatible_def sample_dataset_def)
  then obtain report where r: "compare_datasets (overlap sample_engine) ?c
      (sample_dataset ''proj'') (sample_dataset ''other'') = Inr report"
    by (simp add: compare_datasets_def Let_def)
  have k: "kind_of sample_engine ''simple'' = TextSummary"
    "kind_of sample_engine ''overlay'' = VisualOverlay"
    "output_format ?a = ''simple''" "output_format ?b = ''overlay''"
    by (simp_all add: sample_engine_def sample_args_def diff_defaults_def)
  from render_without_destination [OF d(1) l(1) l(2) c(1) m r]
    render_without_destination [OF d(2) l(3) l(4) c(2) m r] d k
  show ?thesis by (simp add: sample_world_def)
qed

end
